theory Spec2Isabelle
  imports Main
begin

section \<open>Errors\<close>

text \<open>
  A JavaScript \<^verbatim>\<open>throw\<close> is a value: \<open>Error msg\<close> for \<^verbatim>\<open>throw new Error(msg)\<close>,
  \<open>TypeError\<close> for the engine's own failure on reading a property of \<^verbatim>\<open>undefined\<close>.
  A function that can throw returns \<open>error + 'a\<close>, with \<open>Inl\<close> the thrown value.
\<close>

datatype error = Error string | TypeError

section \<open>Name patterns (name\_patterns.ts)\<close>

text \<open>
  The four classes \<^verbatim>\<open>Name\<close>, \<^verbatim>\<open>NameChoice\<close>, \<^verbatim>\<open>NsName\<close> and \<^verbatim>\<open>AnyName\<close>. An optional
  \<^verbatim>\<open>except\<close> is an \<open>option\<close>; the value \<^verbatim>\<open>0\<close> that \<^verbatim>\<open>intersection\<close> and \<^verbatim>\<open>subtract\<close>
  return for the empty set is \<open>None\<close>.
\<close>

datatype name_pattern =
    Name string string
  | NameChoice name_pattern name_pattern
  | NsName string "name_pattern option"
  | AnyName "name_pattern option"

fun isName :: "name_pattern \<Rightarrow> bool" where
  "isName (Name ns n) = True"
| "isName _ = False"

fun isNameChoice :: "name_pattern \<Rightarrow> bool" where
  "isNameChoice (NameChoice a b) = True"
| "isNameChoice _ = False"

fun isNsName :: "name_pattern \<Rightarrow> bool" where
  "isNsName (NsName ns ex) = True"
| "isNsName _ = False"

fun isAnyName :: "name_pattern \<Rightarrow> bool" where
  "isAnyName (AnyName ex) = True"
| "isAnyName _ = False"

text \<open>
  \<^verbatim>\<open>match(ns, name)\<close>. The arguments are \<open>string option\<close>: the walkers call it with
  \<^verbatim>\<open>params[0]\<close> and \<^verbatim>\<open>params[1]\<close>, which JavaScript reads as \<^verbatim>\<open>undefined\<close> (\<open>None\<close>) past
  the end of the array; \<^verbatim>\<open>===\<close> between a string and \<^verbatim>\<open>undefined\<close> is false. An expanded
  name is \<open>(Some ns, Some local)\<close>.
\<close>

fun match :: "name_pattern \<Rightarrow> string option \<Rightarrow> string option \<Rightarrow> bool" where
  "match (Name ns' n') ns name = (Some n' = name \<and> Some ns' = ns)"
| "match (NameChoice a b) ns name = (match a ns name \<or> match b ns name)"
| "match (NsName ns' ex) ns name =
     (Some ns' = ns \<and> \<not> (case ex of None \<Rightarrow> False | Some e \<Rightarrow> match e ns name))"
| "match (AnyName ex) ns name =
     (case ex of None \<Rightarrow> True | Some e \<Rightarrow> \<not> match e ns name)"

fun wildcardMatch :: "name_pattern \<Rightarrow> string option \<Rightarrow> string option \<Rightarrow> bool" where
  "wildcardMatch (Name ns' n') ns name = False"
| "wildcardMatch (NameChoice a b) ns name =
     (wildcardMatch a ns name \<or> wildcardMatch b ns name)"
| "wildcardMatch (NsName ns' ex) ns name = match (NsName ns' ex) ns name"
| "wildcardMatch (AnyName ex) ns name = match (AnyName ex) ns name"

text \<open>\<^verbatim>\<open>toArray()\<close>: the list of \<^verbatim>\<open>Name\<close> objects, \<open>None\<close> for \<^verbatim>\<open>null\<close>.\<close>

fun toArray :: "name_pattern \<Rightarrow> name_pattern list option" where
  "toArray (Name ns n) = Some [Name ns n]"
| "toArray (NameChoice a b) =
     (case toArray a of
        None \<Rightarrow> None
      | Some aArr \<Rightarrow> (case toArray b of None \<Rightarrow> None | Some bArr \<Rightarrow> Some (aArr @ bArr)))"
| "toArray (NsName ns ex) = None"
| "toArray (AnyName ex) = None"

text \<open>
  \<^verbatim>\<open>NameChoice.makeTree(names)\<close>: throws on the empty list, returns a single name as it
  is, and otherwise left-folds the list into \<^verbatim>\<open>NameChoice\<close> nodes.
\<close>

fun makeTree :: "name_pattern list \<Rightarrow> error + name_pattern" where
  "makeTree [] = Inl (Error ''trying to make a tree out of nothing'')"
| "makeTree [x] = Inr x"
| "makeTree (x # y # rest) = Inr (foldl NameChoice (NameChoice x y) rest)"

text \<open>
  \<^verbatim>\<open>new Map(entries)\<close> followed by \<^verbatim>\<open>.values()\<close>: a key that comes again keeps the
  position of its first entry and takes the value of the last one. \<open>nameKey\<close> is the
  template string \<^verbatim>\<open>`{${name.ns}}${name.name}`\<close>.
\<close>

fun mapSet :: "'k \<Rightarrow> 'v \<Rightarrow> ('k \<times> 'v) list \<Rightarrow> ('k \<times> 'v) list" where
  "mapSet k v [] = [(k, v)]"
| "mapSet k v ((k', v') # m) = (if k = k' then (k, v) # m else (k', v') # mapSet k v m)"

definition newMap :: "('k \<times> 'v) list \<Rightarrow> ('k \<times> 'v) list" where
  "newMap entries = foldl (\<lambda>m (k, v). mapSet k v m) [] entries"

fun nameKey :: "name_pattern \<Rightarrow> string" where
  "nameKey (Name ns n) = ''{'' @ ns @ ''}'' @ n"
| "nameKey _ = []"

definition uniqueNames :: "name_pattern list \<Rightarrow> name_pattern list" where
  "uniqueNames names = map snd (newMap (map (\<lambda>name. (nameKey name, name)) names))"

text \<open>
  The test \<^verbatim>\<open>name.ns === thisName.ns && name.name === thisName.name\<close> of
  \<^verbatim>\<open>NsName.subtract\<close>, on the \<^verbatim>\<open>Name\<close> objects that \<^verbatim>\<open>toArray\<close> returns.
\<close>

fun sameName :: "name_pattern \<Rightarrow> name_pattern \<Rightarrow> bool" where
  "sameName (Name ns n) (Name ns' n') = (ns = ns' \<and> n = n')"
| "sameName _ _ = False"

text \<open>
  \<^verbatim>\<open>NameChoice.applyRecursively(fn)\<close> on the choice of \<open>a\<close> and \<open>b\<close>: \<open>fn\<close> is applied to
  the leaves, \<open>a\<close>'s side first, and a side that becomes \<^verbatim>\<open>0\<close> is dropped.
\<close>

function applyRecursively ::
  "(name_pattern \<Rightarrow> error + name_pattern option) \<Rightarrow> name_pattern \<Rightarrow> name_pattern
     \<Rightarrow> error + name_pattern option" where
  "applyRecursively fn a b =
     (case (case a of NameChoice a1 a2 \<Rightarrow> applyRecursively fn a1 a2 | _ \<Rightarrow> fn a) of
        Inl e \<Rightarrow> Inl e
      | Inr newA \<Rightarrow>
          (case (case b of NameChoice b1 b2 \<Rightarrow> applyRecursively fn b1 b2 | _ \<Rightarrow> fn b) of
             Inl e \<Rightarrow> Inl e
           | Inr newB \<Rightarrow>
               Inr (case newA of
                      None \<Rightarrow> newB
                    | Some x \<Rightarrow> (case newB of None \<Rightarrow> newA | Some y \<Rightarrow> Some (NameChoice x y)))))"
  by pat_completeness auto
termination
  by (relation "measure (\<lambda>(fn, a, b). size a + size b)") auto

text \<open>
  \<^verbatim>\<open>NsName.subtract(other)\<close>, for the \<^verbatim>\<open>NsName\<close> with fields \<open>ns\<close> and \<open>ex\<close>.
  \<open>subtractLeaf\<close> is the method's body below its \<^verbatim>\<open>isNameChoice\<close> test; the callback given
  to \<^verbatim>\<open>applyRecursively\<close> calls \<^verbatim>\<open>this.subtract(child)\<close> on a child that is no
  \<^verbatim>\<open>NameChoice\<close>, which is that body again (lemma \<open>subtract_callback\<close>). An \<^verbatim>\<open>AnyName\<close>
  operand has no \<^verbatim>\<open>ns\<close> field, so \<^verbatim>\<open>this.ns !== other.ns\<close> holds for it.
\<close>

definition subtractLeaf ::
  "string \<Rightarrow> name_pattern option \<Rightarrow> name_pattern \<Rightarrow> error + name_pattern option" where
  "subtractLeaf ns ex other =
     (case other of
        Name ons on \<Rightarrow>
          (if ns \<noteq> ons then Inr (Some (NsName ns ex))
           else Inr (Some (NsName ns
                  (Some (case ex of None \<Rightarrow> other | Some e \<Rightarrow> NameChoice e other)))))
      | NsName ons oex \<Rightarrow>
          (if ns \<noteq> ons then Inr (Some (NsName ns ex))
           else (case oex of
                   None \<Rightarrow> Inr None
                 | Some oe \<Rightarrow>
                     (case ex of
                        None \<Rightarrow> Inr (Some oe)
                      | Some e \<Rightarrow>
                          (case (toArray e, toArray oe) of
                             (Some theseNames, Some otherNames) \<Rightarrow>
                               (let result = filter (\<lambda>name. \<not> list_ex (sameName name) theseNames)
                                               otherNames
                                in if result = [] then Inr None
                                   else (case makeTree result of
                                           Inl er \<Rightarrow> Inl er
                                         | Inr t \<Rightarrow> Inr (Some t)))
                           | _ \<Rightarrow>
                               Inl (Error
                                 ''NsName contains an except pattern which is not simple.'')))))
      | _ \<Rightarrow> Inr (Some (NsName ns ex)))"

definition subtract ::
  "string \<Rightarrow> name_pattern option \<Rightarrow> name_pattern \<Rightarrow> error + name_pattern option" where
  "subtract ns ex other =
     (case other of
        NameChoice a b \<Rightarrow>
          applyRecursively
            (\<lambda>child. if \<not> (isName child \<or> isNsName child)
                     then Inl (Error ''child is not Name or NsName'')
                     else subtractLeaf ns ex child) a b
      | _ \<Rightarrow> subtractLeaf ns ex other)"

text \<open>
  \<^verbatim>\<open>intersection(other)\<close> of the four classes. \<^verbatim>\<open>Name\<close> delegates to the other class when
  \<open>other\<close> is no \<^verbatim>\<open>Name\<close>, \<^verbatim>\<open>NsName\<close> when it is neither \<^verbatim>\<open>Name\<close> nor \<^verbatim>\<open>NsName\<close>;
  \<^verbatim>\<open>AnyName\<close> with an \<^verbatim>\<open>except\<close> throws on a \<^verbatim>\<open>NameChoice\<close>.
\<close>

fun rank :: "name_pattern \<Rightarrow> nat" where
  "rank (Name ns n) = 2"
| "rank (NsName ns ex) = 1"
| "rank _ = 0"

function (sequential) intersection ::
  "name_pattern \<Rightarrow> name_pattern option \<Rightarrow> error + name_pattern option" where
  "intersection p None = Inr None"
| "intersection (Name ns n) (Some (Name ons on)) =
     Inr (if match (Name ns n) (Some ons) (Some on) then Some (Name ns n) else None)"
| "intersection (Name ns n) (Some other) = intersection other (Some (Name ns n))"
| "intersection (NameChoice a b) (Some other) =
     (case intersection a (Some other) of
        Inl e \<Rightarrow> Inl e
      | Inr ra \<Rightarrow>
          (case intersection b (Some other) of
             Inl e \<Rightarrow> Inl e
           | Inr rb \<Rightarrow>
               Inr (case ra of
                      None \<Rightarrow> rb
                    | Some x \<Rightarrow> (case rb of None \<Rightarrow> ra | Some y \<Rightarrow> Some (NameChoice x y)))))"
| "intersection (NsName ns ex) (Some (Name ons on)) =
     (if ns \<noteq> ons then Inr None
      else (case ex of
              Some e \<Rightarrow>
                (case intersection (Name ons on) (Some e) of
                   Inl er \<Rightarrow> Inl er
                 | Inr r \<Rightarrow> Inr (if r = None then Some (Name ons on) else None))
            | None \<Rightarrow> Inr (Some (Name ons on))))"
| "intersection (NsName ns ex) (Some (NsName ons oex)) =
     (if ns \<noteq> ons then Inr None
      else (case (ex, oex) of
              (Some e, Some oe) \<Rightarrow>
                (case (toArray e, toArray oe) of
                   (Some theseNames, Some otherNames) \<Rightarrow>
                     (case makeTree (uniqueNames (theseNames @ otherNames)) of
                        Inl er \<Rightarrow> Inl er
                      | Inr t \<Rightarrow> Inr (Some (NsName ns (Some t))))
                 | _ \<Rightarrow> Inl (Error ''complex pattern found in NsName except''))
            | _ \<Rightarrow> Inr (Some (if oex \<noteq> None then NsName ons oex else NsName ns ex))))"
| "intersection (NsName ns ex) (Some other) = intersection other (Some (NsName ns ex))"
| "intersection (AnyName None) (Some other) = Inr (Some other)"
| "intersection (AnyName (Some e)) (Some (Name ons on)) =
     (case intersection e (Some (Name ons on)) of
        Inl er \<Rightarrow> Inl er
      | Inr r \<Rightarrow> Inr (if r = None then Some (Name ons on) else None))"
| "intersection (AnyName (Some e)) (Some (NsName ons oex)) =
     (case intersection e (Some (NsName ons oex)) of
        Inl er \<Rightarrow> Inl er
      | Inr None \<Rightarrow> Inr (Some (NsName ons oex))
      | Inr (Some negation) \<Rightarrow> subtract ons oex negation)"
| "intersection (AnyName (Some e)) (Some (AnyName oex)) =
     (case oex of
        Some oe \<Rightarrow> Inr (Some (AnyName (Some (NameChoice e oe))))
      | None \<Rightarrow> Inr (Some (AnyName (Some e))))"
| "intersection (AnyName (Some e)) (Some (NameChoice a b)) =
     Inl (Error ''cannot compute intersection!'')"
  by pat_completeness auto
termination
  by (relation "measures [\<lambda>(p, q). size p + (case q of None \<Rightarrow> 0 | Some q' \<Rightarrow> size q'),
                          \<lambda>(p, q). rank p]") auto

text \<open>
  \<^verbatim>\<open>intersects(other)\<close> of the four classes; \<^verbatim>\<open>||\<close> and \<^verbatim>\<open>&&\<close> evaluate their right
  operand only when the left one does not decide.
\<close>

function (sequential) intersects :: "name_pattern \<Rightarrow> name_pattern \<Rightarrow> error + bool" where
  "intersects (Name ns n) (Name ons on) = Inr (match (Name ns n) (Some ons) (Some on))"
| "intersects (Name ns n) other = intersects other (Name ns n)"
| "intersects (NameChoice a b) other =
     (case intersects a other of
        Inl e \<Rightarrow> Inl e
      | Inr True \<Rightarrow> Inr True
      | Inr False \<Rightarrow> intersects b other)"
| "intersects (NsName ns ex) (Name ons on) =
     (if ns = ons
      then (case ex of
              None \<Rightarrow> Inr True
            | Some e \<Rightarrow>
                (case intersects (Name ons on) e of Inl er \<Rightarrow> Inl er | Inr r \<Rightarrow> Inr (\<not> r)))
      else Inr False)"
| "intersects (NsName ns ex) (NsName ons oex) = Inr (ns = ons)"
| "intersects (NsName ns ex) other = intersects other (NsName ns ex)"
| "intersects (AnyName None) other = Inr True"
| "intersects (AnyName (Some e)) (AnyName oex) = Inr True"
| "intersects (AnyName (Some e)) (Name ons on) =
     (case intersects e (Name ons on) of Inl er \<Rightarrow> Inl er | Inr r \<Rightarrow> Inr (\<not> r))"
| "intersects (AnyName (Some e)) (NsName ons oex) =
     (case intersection e (Some (NsName ons oex)) of
        Inl er \<Rightarrow> Inl er
      | Inr None \<Rightarrow> Inr True
      | Inr (Some negation) \<Rightarrow>
          (case subtract ons oex negation of Inl er \<Rightarrow> Inl er | Inr r \<Rightarrow> Inr (r \<noteq> None)))"
| "intersects (AnyName (Some e)) (NameChoice a b) =
     Inl (Error ''cannot compute intersection!'')"
  by pat_completeness auto
termination
  by (relation "measures [\<lambda>(p, q). size p + size q, \<lambda>(p, q). rank p]") auto

text \<open>
  \<^verbatim>\<open>simple()\<close>: a pattern made of \<^verbatim>\<open>Name\<close> and \<^verbatim>\<open>NameChoice\<close> only.
\<close>

fun simple :: "name_pattern \<Rightarrow> bool" where
  "simple (Name ns n) = True"
| "simple (NameChoice a b) = (simple a \<and> simple b)"
| "simple (NsName ns ex) = False"
| "simple (AnyName ex) = False"

text \<open>
  The Relax NG restrictions on \<^verbatim>\<open>except\<close>, as \<^verbatim>\<open>checkNames\<close> of step10.ts enforces them:
  an \<^verbatim>\<open>except\<close> in \<^verbatim>\<open>nsName\<close> has no \<^verbatim>\<open>anyName\<close> and no \<^verbatim>\<open>nsName\<close> descendant (it is
  \<open>simple\<close>), and an \<^verbatim>\<open>except\<close> in \<^verbatim>\<open>anyName\<close> has no \<^verbatim>\<open>anyName\<close> descendant.
\<close>

fun noAnyName :: "name_pattern \<Rightarrow> bool" where
  "noAnyName (Name ns n) = True"
| "noAnyName (NameChoice a b) = (noAnyName a \<and> noAnyName b)"
| "noAnyName (NsName ns ex) = (case ex of None \<Rightarrow> True | Some e \<Rightarrow> simple e)"
| "noAnyName (AnyName ex) = False"

fun restricted :: "name_pattern \<Rightarrow> bool" where
  "restricted (Name ns n) = True"
| "restricted (NameChoice a b) = (restricted a \<and> restricted b)"
| "restricted (NsName ns ex) = (case ex of None \<Rightarrow> True | Some e \<Rightarrow> simple e)"
| "restricted (AnyName ex) = (case ex of None \<Rightarrow> True | Some e \<Rightarrow> noAnyName e)"

section \<open>Patterns and walkers (patterns/ref.ts, patterns/not\_allowed.ts)\<close>

text \<open>
  The two pattern classes of the sources: \<^verbatim>\<open>NotAllowed\<close> (with its \<^verbatim>\<open>xmlPath\<close>) and
  \<^verbatim>\<open>Ref\<close> (\<^verbatim>\<open>xmlPath\<close>, \<^verbatim>\<open>name\<close> and the private \<^verbatim>\<open>resolvesTo\<close>, \<open>None\<close> while
  \<^verbatim>\<open>undefined\<close>). The classes \<^verbatim>\<open>Define\<close> and \<^verbatim>\<open>Element\<close> are imported by ref.ts; of a
  \<^verbatim>\<open>Define\<close> the code reads \<^verbatim>\<open>name\<close> and \<^verbatim>\<open>pat\<close>, of an \<^verbatim>\<open>Element\<close> it reads \<^verbatim>\<open>name\<close>,
  \<^verbatim>\<open>pat\<close> and \<^verbatim>\<open>notAllowed\<close>, and these are their fields here, in that order.
\<close>

datatype pattern =
    NotAllowed string
  | Ref string string "definePattern option"
and definePattern = Define string elementPattern
and elementPattern = Element name_pattern pattern bool

datatype event = EnterStartTagEvent name_pattern

datatype validationError =
    ValidationError string
  | ElementNameError string name_pattern
  | AttributeNameError string name_pattern

text \<open>
  The walkers: \<^verbatim>\<open>NotAllowedWalker\<close> with \<^verbatim>\<open>el\<close>, \<^verbatim>\<open>canEnd\<close>, \<^verbatim>\<open>canEndAttribute\<close>, and
  \<^verbatim>\<open>RefWalker\<close> with \<^verbatim>\<open>el\<close>, \<^verbatim>\<open>element\<close>, \<^verbatim>\<open>startName\<close>, \<^verbatim>\<open>startTagEvent\<close>,
  \<^verbatim>\<open>canEndAttribute\<close>, \<^verbatim>\<open>canEnd\<close>, in the order of the constructor's parameters.
\<close>

datatype walker =
    NotAllowedWalker pattern bool bool
  | RefWalker pattern elementPattern name_pattern event bool bool

fun canEnd :: "walker \<Rightarrow> bool" where
  "canEnd (NotAllowedWalker el ce cea) = ce"
| "canEnd (RefWalker el element startName startTagEvent cea ce) = ce"

fun canEndAttribute :: "walker \<Rightarrow> bool" where
  "canEndAttribute (NotAllowedWalker el ce cea) = cea"
| "canEndAttribute (RefWalker el element startName startTagEvent cea ce) = cea"

text \<open>
  \<^verbatim>\<open>new InternalFireEventResult(matched, errors, refs)\<close>; an argument left out is
  \<^verbatim>\<open>undefined\<close>.
\<close>

record internalFireEventResult =
  matched :: bool
  errors :: "validationError list option"
  refs :: "walker list option"

text \<open>
  \<^verbatim>\<open>Ref._prepare(definitions)\<close>: the \<^verbatim>\<open>Ref\<close> after the call, or the error thrown. The
  message is written in the source between double quotes, so it is this text as it
  stands.
\<close>

fun Ref_prepare :: "(string \<rightharpoonup> definePattern) \<Rightarrow> pattern \<Rightarrow> error + pattern" where
  "Ref_prepare definitions (Ref xmlPath name resolvesTo) =
     (case definitions name of
        None \<Rightarrow> Inl (Error ''${this.name} cannot be resolved'')
      | Some d \<Rightarrow> Inr (Ref xmlPath name (Some d)))"
| "Ref_prepare definitions p = Inr p"


text \<open>The constant \<^verbatim>\<open>singleton\<close> of not\_allowed.ts.\<close>

definition singleton :: walker where
  "singleton = NotAllowedWalker (NotAllowed ''FAKE ELEMENT'') True True"

text \<open>
  \<^verbatim>\<open>newWalker()\<close> of the two classes. For a \<^verbatim>\<open>Ref\<close>, the getter \<^verbatim>\<open>element\<close> throws when
  the reference is not resolved; an element marked \<^verbatim>\<open>notAllowed\<close> gives the walker of its
  content.
\<close>

fun newWalker :: "pattern \<Rightarrow> error + walker" where
  "newWalker (NotAllowed xmlPath) = Inr singleton"
| "newWalker (Ref xmlPath name None) =
     Inl (Error ''trying to get an element on a ref hat has not been resolved'')"
| "newWalker (Ref xmlPath name (Some (Define dname (Element ename epat enotAllowed)))) =
     (if enotAllowed then newWalker epat
      else Inr (RefWalker (Ref xmlPath name (Some (Define dname (Element ename epat enotAllowed))))
                  (Element ename epat enotAllowed) ename (EnterStartTagEvent ename) True False))"

text \<open>\<^verbatim>\<open>params[i]\<close>: \<^verbatim>\<open>undefined\<close> past the end of the array.\<close>

definition param :: "string list \<Rightarrow> nat \<Rightarrow> string option" where
  "param params i = (if i < length params then Some (params ! i) else None)"

text \<open>
  \<^verbatim>\<open>fireEvent\<close> and \<^verbatim>\<open>end\<close> of the two walkers: the result and the walker after the call.
  The \<^verbatim>\<open>refs\<close> of a \<^verbatim>\<open>RefWalker\<close>'s match hold the walker itself, which by then has
  \<^verbatim>\<open>canEnd\<close> set.
\<close>

fun fireEvent :: "walker \<Rightarrow> string \<Rightarrow> string list \<Rightarrow> internalFireEventResult \<times> walker" where
  "fireEvent (NotAllowedWalker el ce cea) name params =
     (\<lparr>matched = False, errors = None, refs = None\<rparr>, NotAllowedWalker el ce cea)"
| "fireEvent (RefWalker el element startName startTagEvent cea ce) name params =
     (if \<not> ce \<and> (name = ''enterStartTag'' \<or> name = ''startTagAndAttributes'')
         \<and> match startName (param params 0) (param params 1)
      then (\<lparr>matched = True, errors = None,
             refs = Some [RefWalker el element startName startTagEvent cea True]\<rparr>,
            RefWalker el element startName startTagEvent cea True)
      else (\<lparr>matched = False, errors = None, refs = None\<rparr>,
            RefWalker el element startName startTagEvent cea ce))"

fun walkerEnd :: "walker \<Rightarrow> validationError list option" where
  "walkerEnd (NotAllowedWalker el ce cea) = None"
| "walkerEnd (RefWalker el element startName startTagEvent cea ce) =
     (if \<not> ce then Some [ElementNameError ''tag required'' startName] else None)"

text \<open>A sequence of events fired on one walker, and whether one of them matched.\<close>

fun fireEvents :: "walker \<Rightarrow> (string \<times> string list) list \<Rightarrow> bool \<times> walker" where
  "fireEvents w [] = (False, w)"
| "fireEvents w ((name, params) # evs) =
     (case fireEvent w name params of
        (r, w') \<Rightarrow> (case fireEvents w' evs of (m, w'') \<Rightarrow> (matched r \<or> m, w'')))"

section \<open>The grammar walker (patterns/grammar.ts)\<close>

text \<open>
  \<^verbatim>\<open>escapeString\<close> and \<^verbatim>\<open>asString\<close> of name\_patterns.ts, which \<^verbatim>\<open>toString\<close> caches:
  the key under which \<^verbatim>\<open>Grammar.elementDefinitions\<close> files an element.
\<close>

definition escapeString :: "string \<Rightarrow> string" where
  "escapeString str =
     concat (map (\<lambda>c. if c = CHR 0x22 \<or> c = CHR 0x5C then [CHR 0x5C, c] else [c]) str)"

fun asString :: "name_pattern \<Rightarrow> string" where
  "asString (Name ns n) =
     ''{'' @ [CHR 0x22] @ ''ns'' @ [CHR 0x22] @ '':'' @ [CHR 0x22] @ escapeString ns @ [CHR 0x22]
       @ '','' @ [CHR 0x22] @ ''name'' @ [CHR 0x22] @ '':'' @ [CHR 0x22] @ n @ [CHR 0x22] @ ''}''"
| "asString (NameChoice a b) =
     ''{'' @ [CHR 0x22] @ ''a'' @ [CHR 0x22] @ '':'' @ asString a
       @ '','' @ [CHR 0x22] @ ''b'' @ [CHR 0x22] @ '':'' @ asString b @ ''}''"
| "asString (NsName ns ex) =
     ''{'' @ [CHR 0x22] @ ''ns'' @ [CHR 0x22] @ '':'' @ [CHR 0x22] @ escapeString ns @ [CHR 0x22]
       @ (case ex of
            None \<Rightarrow> []
          | Some e \<Rightarrow> '','' @ [CHR 0x22] @ ''except'' @ [CHR 0x22] @ '':'' @ asString e)
       @ ''}''"
| "asString (AnyName ex) =
     ''{'' @ [CHR 0x22] @ ''pattern'' @ [CHR 0x22] @ '':'' @ [CHR 0x22] @ ''AnyName'' @ [CHR 0x22]
       @ (case ex of
            None \<Rightarrow> []
          | Some e \<Rightarrow> '','' @ [CHR 0x22] @ ''except'' @ [CHR 0x22] @ '':'' @ asString e)
       @ ''}''"

text \<open>
  \<^verbatim>\<open>new Name(params[0], params[1])\<close> as \<^verbatim>\<open>fireEvent\<close> builds it from an event's
  parameters, either of which is \<^verbatim>\<open>undefined\<close> when the array is too short. Its
  \<^verbatim>\<open>toString\<close> throws on an undefined namespace (\<^verbatim>\<open>escapeString\<close> calls \<^verbatim>\<open>replace\<close> on it)
  and prints an undefined local name as \<open>undefined\<close>.
\<close>

datatype paramName = ParamName "string option" "string option"

definition paramNameToString :: "paramName \<Rightarrow> error + string" where
  "paramNameToString pn =
     (case pn of
        ParamName None n \<Rightarrow> Inl TypeError
      | ParamName (Some ns) n \<Rightarrow>
          Inr (asString (Name ns (case n of None \<Rightarrow> ''undefined'' | Some l \<Rightarrow> l))))"

text \<open>
  What \<^verbatim>\<open>GrammarWalker.fireEvent\<close> returns: \<open>None\<close> for \<^verbatim>\<open>false\<close>, or the errors. The
  errors that \<^verbatim>\<open>diagnose\<close> makes name the event's own \<open>paramName\<close>; those of the walkers
  are handed on as they are.
\<close>

datatype grammarError =
    WalkerError validationError
  | GValidationError string
  | GElementNameError string paramName
  | GAttributeNameError string paramName

text \<open>
  The grammar: \<^verbatim>\<open>xmlPath\<close>, \<^verbatim>\<open>start\<close>, and the \<^verbatim>\<open>Map\<close> \<^verbatim>\<open>definitions\<close> as the list of its
  entries in insertion order. \<^verbatim>\<open>elementDefinitions\<close> files each definition's element under
  the string of its name class, in the order of the definitions.
\<close>

datatype grammar = Grammar string pattern "(string \<times> definePattern) list"

fun addElementDefinition ::
  "(string \<times> elementPattern list) list \<Rightarrow> string \<Rightarrow> elementPattern
     \<Rightarrow> (string \<times> elementPattern list) list" where
  "addElementDefinition [] key el = [(key, [el])]"
| "addElementDefinition ((k, els) # m) key el =
     (if k = key then (k, els @ [el]) # m else (k, els) # addElementDefinition m key el)"

fun elementDefinitions :: "grammar \<Rightarrow> (string \<times> elementPattern list) list" where
  "elementDefinitions (Grammar xmlPath start definitions) =
     foldl (\<lambda>newDef (dname, d).
              (case d of Define n (Element ename epat enotAllowed) \<Rightarrow>
                 addElementDefinition newDef (asString ename) (Element ename epat enotAllowed)))
       [] definitions"

text \<open>
  The walkers a frame of the stack holds (\<^verbatim>\<open>IWalker\<close>): the two walkers of the sources,
  the \<^verbatim>\<open>MisplacedElementWalker\<close> with its \<^verbatim>\<open>canEnd\<close> and \<^verbatim>\<open>canEndAttribute\<close>, and the
  walkers of the pattern classes that are not among the sources (the element walker that
  \<^verbatim>\<open>Element.newWalker\<close> makes, and the others), of which the grammar walker uses the three
  operations of \<open>absentOps\<close>: \<^verbatim>\<open>fireEvent\<close>, \<^verbatim>\<open>Element.newWalker(boundName)\<close> and
  \<^verbatim>\<open>initWithAttributes\<close> (its \<^verbatim>\<open>matched\<close> and the walker after the call). The name
  resolver, which \<^verbatim>\<open>fireEvent\<close> only hands to the walkers, is part of these operations.
\<close>

datatype 'a iwalker =
    SrcWalker walker
  | MisplacedElementWalker bool bool
  | AbsentWalker 'a

record 'a absentOps =
  absentFireEvent :: "'a \<Rightarrow> string \<Rightarrow> string list \<Rightarrow> internalFireEventResult \<times> 'a"
  elementNewWalker :: "elementPattern \<Rightarrow> paramName \<Rightarrow> 'a"
  initWithAttributes :: "'a \<Rightarrow> string list \<Rightarrow> bool \<times> 'a"

fun iwalkerFireEvent ::
  "'a absentOps \<Rightarrow> 'a iwalker \<Rightarrow> string \<Rightarrow> string list \<Rightarrow> internalFireEventResult \<times> 'a iwalker" where
  "iwalkerFireEvent ops (SrcWalker w) name params =
     (case fireEvent w name params of (r, w') \<Rightarrow> (r, SrcWalker w'))"
| "iwalkerFireEvent ops (MisplacedElementWalker ce cea) name params =
     (if name = ''enterStartTag'' \<or> name = ''startTagAndAttributes''
      then (\<lparr>matched = False, errors = None, refs = None\<rparr>, MisplacedElementWalker ce cea)
      else (\<lparr>matched = True, errors = None, refs = None\<rparr>, MisplacedElementWalker ce cea))"
| "iwalkerFireEvent ops (AbsentWalker a) name params =
     (case absentFireEvent ops a name params of (r, a') \<Rightarrow> (r, AbsentWalker a'))"

text \<open>The state of a \<^verbatim>\<open>GrammarWalker\<close>: its private fields.\<close>

record 'a grammarWalker =
  gwEl :: grammar
  elementWalkerStack :: "'a iwalker list list"
  misplacedDepth :: nat
  swallowAttributeValue :: bool
  suspendedWs :: "string option"
  ignoreNextWs :: bool

text \<open>\<^verbatim>\<open>GrammarWalker.make\<close>; \<^verbatim>\<open>el.start.newWalker()\<close> may throw.\<close>

fun GrammarWalker_make :: "grammar \<Rightarrow> error + 'a grammarWalker" where
  "GrammarWalker_make (Grammar xmlPath start definitions) =
     (case newWalker start of
        Inl e \<Rightarrow> Inl e
      | Inr w \<Rightarrow>
          Inr \<lparr>gwEl = Grammar xmlPath start definitions, elementWalkerStack = [[SrcWalker w]],
               misplacedDepth = 0, swallowAttributeValue = False, suspendedWs = None,
               ignoreNextWs = False\<rparr>)"

text \<open>
  The test \<^verbatim>\<open>/\S/\<close>: a character that is not white space. Of the characters \<^verbatim>\<open>\s\<close>
  stands for, those a \<open>char\<close> can hold are the tab, the line feed, the vertical tab, the
  form feed, the carriage return, the space and the no-break space.
\<close>

definition isSpaceChar :: "char \<Rightarrow> bool" where
  "isSpaceChar c = (c \<in> set [CHR 0x09, CHR 0x0A, CHR 0x0B, CHR 0x0C, CHR 0x0D, CHR 0x20, CHR 0xA0])"

definition hasNonSpace :: "string \<Rightarrow> bool" where
  "hasNonSpace str = list_ex (\<lambda>c. \<not> isSpaceChar c) str"

text \<open>
  \<^verbatim>\<open>_fireSuspendedWsOnCurrentWalkers\<close>: whether the text matched, and the stack after the
  call. The walkers fired are changed in place, also those that are not kept. Reading the
  top of an empty stack gives \<^verbatim>\<open>undefined\<close>, whose \<^verbatim>\<open>length\<close> throws.
\<close>

definition setLast :: "'b list \<Rightarrow> 'b \<Rightarrow> 'b list" where
  "setLast xs x = butlast xs @ [x]"

definition fireSuspendedWsOnCurrentWalkers ::
  "'a absentOps \<Rightarrow> 'a iwalker list list \<Rightarrow> string \<Rightarrow> error + bool \<times> 'a iwalker list list" where
  "fireSuspendedWsOnCurrentWalkers ops stack ws =
     (if stack = [] then Inl TypeError
      else (let walkers = last stack
            in (case walkers of
                  [w] \<Rightarrow>
                    (case iwalkerFireEvent ops w ''text'' [ws] of
                       (r, w') \<Rightarrow> Inr (matched r, setLast stack [w']))
                | _ \<Rightarrow>
                    (let fired = map (\<lambda>w. iwalkerFireEvent ops w ''text'' [ws]) walkers;
                         remainingWalkers = map snd (filter (\<lambda>(r, w'). matched r) fired)
                     in if remainingWalkers \<noteq> []
                        then Inr (True, setLast stack remainingWalkers)
                        else Inr (False, setLast stack (map snd fired))))))"

text \<open>
  \<^verbatim>\<open>_fireOnCurrentWalkers\<close>: the result and the stack after the call. The errors of a walker
  that did not match are recorded only while no walker has matched yet.
\<close>

fun fireLoop ::
  "'a absentOps \<Rightarrow> string \<Rightarrow> string list \<Rightarrow> 'a iwalker list
     \<Rightarrow> validationError list \<times> walker list \<times> 'a iwalker list \<times> 'a iwalker list
     \<Rightarrow> validationError list \<times> walker list \<times> 'a iwalker list \<times> 'a iwalker list" where
  "fireLoop ops name params [] acc = acc"
| "fireLoop ops name params (w # ws) (errs, rfs, remainingWalkers, allWalkers) =
     (case iwalkerFireEvent ops w name params of
        (r, w') \<Rightarrow>
          fireLoop ops name params ws
            (if matched r
             then (errs, (case refs r of None \<Rightarrow> rfs | Some rs \<Rightarrow> rfs @ rs),
                   remainingWalkers @ [w'], allWalkers @ [w'])
             else if remainingWalkers = [] \<and> errors r \<noteq> None
             then (errs @ the (errors r), rfs, remainingWalkers, allWalkers @ [w'])
             else (errs, rfs, remainingWalkers, allWalkers @ [w'])))"

definition fireOnCurrentWalkers ::
  "'a absentOps \<Rightarrow> 'a iwalker list list \<Rightarrow> string \<Rightarrow> string list
     \<Rightarrow> error + internalFireEventResult \<times> 'a iwalker list list" where
  "fireOnCurrentWalkers ops stack name params =
     (if stack = [] then Inl TypeError
      else (let walkers = last stack
            in (case walkers of
                  [w] \<Rightarrow>
                    (case iwalkerFireEvent ops w name params of
                       (r, w') \<Rightarrow> Inr (r, setLast stack [w']))
                | _ \<Rightarrow>
                    (case fireLoop ops name params walkers ([], [], [], []) of
                       (errs, rfs, remainingWalkers, allWalkers) \<Rightarrow>
                         if remainingWalkers \<noteq> []
                         then Inr (\<lparr>matched = True, errors = None,
                                    refs = (if rfs \<noteq> [] then Some rfs else None)\<rparr>,
                                   setLast stack remainingWalkers)
                         else Inr (\<lparr>matched = False,
                                    errors = (if errs \<noteq> [] then Some errs else None),
                                    refs = None\<rparr>,
                                   setLast stack allWalkers)))))"

text \<open>
  \<^verbatim>\<open>_processRefs\<close>: the new frame pushed on the stack. Each item of \<^verbatim>\<open>refs\<close> is read for
  its \<^verbatim>\<open>element\<close>, which only a \<^verbatim>\<open>RefWalker\<close> has.
\<close>

fun refElement :: "walker \<Rightarrow> error + elementPattern" where
  "refElement (RefWalker el element startName startTagEvent cea ce) = Inr element"
| "refElement (NotAllowedWalker el ce cea) = Inl TypeError"

fun processRefsLoop ::
  "'a absentOps \<Rightarrow> string \<Rightarrow> walker list \<Rightarrow> string list \<Rightarrow> error + 'a iwalker list" where
  "processRefsLoop ops name [] params = Inr []"
| "processRefsLoop ops name (item # items) params =
     (case refElement item of
        Inl e \<Rightarrow> Inl e
      | Inr element \<Rightarrow>
          (let walker = elementNewWalker ops element (ParamName (param params 0) (param params 1))
           in if name = ''startTagAndAttributes''
              then (case initWithAttributes ops walker params of
                      (m, walker') \<Rightarrow>
                        if \<not> m
                        then Inl (Error (''error or failed to match on a new element ''
                                         @ ''walker: the internal logic is incorrect''))
                        else (case processRefsLoop ops name items params of
                                Inl e \<Rightarrow> Inl e
                              | Inr newWalkers \<Rightarrow> Inr (AbsentWalker walker' # newWalkers)))
              else (case processRefsLoop ops name items params of
                      Inl e \<Rightarrow> Inl e
                    | Inr newWalkers \<Rightarrow> Inr (AbsentWalker walker # newWalkers))))"

definition processRefs ::
  "'a absentOps \<Rightarrow> 'a grammarWalker \<Rightarrow> string \<Rightarrow> walker list \<Rightarrow> string list
     \<Rightarrow> error + 'a grammarWalker" where
  "processRefs ops gw name rfs params =
     (case processRefsLoop ops name rfs params of
        Inl e \<Rightarrow> Inl e
      | Inr newWalkers \<Rightarrow>
          Inr (gw\<lparr>elementWalkerStack := elementWalkerStack gw @ [newWalkers]\<rparr>))"

text \<open>\<^verbatim>\<open>diagnose\<close>: the errors returned and the state after the call.\<close>

definition textNotAllowed :: "bool \<Rightarrow> grammarError list option" where
  "textNotAllowed wsMatch =
     (if wsMatch then None else Some [GValidationError ''text not allowed here''])"

definition diagnose ::
  "'a absentOps \<Rightarrow> 'a grammarWalker \<Rightarrow> string \<Rightarrow> string list \<Rightarrow> bool
     \<Rightarrow> error + grammarError list option \<times> 'a grammarWalker" where
  "diagnose ops gw name params wsMatch =
     (if name = ''enterStartTag'' \<or> name = ''startTagAndAttributes'' then
        (if misplacedDepth gw > 0
         then Inr (textNotAllowed wsMatch,
                   gw\<lparr>misplacedDepth := misplacedDepth gw + 1,
                      elementWalkerStack :=
                        elementWalkerStack gw @ [[MisplacedElementWalker True True]]\<rparr>)
         else
           (let elName = ParamName (param params 0) (param params 1)
            in (case paramNameToString elName of
                  Inl e \<Rightarrow> Inl e
                | Inr key \<Rightarrow>
                    (let err = Some [GElementNameError
                                 (if name = ''enterStartTag'' then ''tag not allowed here''
                                  else ''tag not allowed here with these attributes'') elName]
                     in (case map_of (elementDefinitions (gwEl gw)) key of
                           Some [candidate] \<Rightarrow>
                             (let newWalker = elementNewWalker ops candidate elName
                              in if name = ''startTagAndAttributes''
                                 then (case initWithAttributes ops newWalker params of
                                         (m, newWalker') \<Rightarrow>
                                           if \<not> m
                                           then Inl (Error (''internal error: the inferred element ''
                                                  @ ''does not accept its initial event''))
                                           else Inr (err, gw\<lparr>elementWalkerStack :=
                                                  elementWalkerStack gw
                                                    @ [[AbsentWalker newWalker']]\<rparr>))
                                 else Inr (err, gw\<lparr>elementWalkerStack :=
                                        elementWalkerStack gw @ [[AbsentWalker newWalker]]\<rparr>))
                         | _ \<Rightarrow>
                             Inr (err,
                                  gw\<lparr>misplacedDepth := misplacedDepth gw + 1,
                                     elementWalkerStack :=
                                       elementWalkerStack gw
                                         @ [[MisplacedElementWalker True True]]\<rparr>))))))
      else if name = ''endTag'' then
        Inr (Some [GElementNameError ''unexpected end tag''
                     (ParamName (param params 0) (param params 1))], gw)
      else if name = ''attributeName'' then
        Inr (Some [GAttributeNameError ''attribute not allowed here''
                     (ParamName (param params 0) (param params 1))],
             gw\<lparr>swallowAttributeValue := True\<rparr>)
      else if name = ''attributeNameAndValue'' then
        Inr (Some [GAttributeNameError ''attribute not allowed here''
                     (ParamName (param params 0) (param params 1))], gw)
      else if name = ''attributeValue'' then
        Inr (Some [GValidationError (''unexpected attributeValue event; it ''
                     @ ''is likely that fireEvent is incorrectly called'')], gw)
      else if name = ''text'' then
        Inr (Some [GValidationError ''text not allowed here''], gw)
      else Inl (Error (''unexpected event type in GrammarWalker's fireEvent: '' @ name)))"

text \<open>
  \<^verbatim>\<open>GrammarWalker.fireEvent(name, params)\<close>: what it returns and the state after the call,
  or the error thrown. \<open>afterSwitch\<close> is the method's \<^verbatim>\<open>switch\<close> statement, with the
  state after it: \<open>None\<close> when the method returns \<^verbatim>\<open>false\<close> from the white-space case,
  and otherwise the value of \<^verbatim>\<open>wsMatch\<close> with which the method goes on. \<^verbatim>\<open>/\S/.test\<close> of an undefined parameter tests
  the string \<open>undefined\<close>, which has a character that is not white space.
\<close>

definition afterSwitch ::
  "'a absentOps \<Rightarrow> 'a grammarWalker \<Rightarrow> string \<Rightarrow> string list
     \<Rightarrow> error + bool option \<times> 'a grammarWalker" where
  "afterSwitch ops gw name params =
     (if name = ''text'' then
        (case param params 0 of
           None \<Rightarrow> Inr (Some True, gw)
         | Some text \<Rightarrow>
             if \<not> hasNonSpace text
             then (if text = []
                   then Inl (Error ''firing empty text events makes no sense'')
                   else Inr (None, gw\<lparr>suspendedWs := Some text\<rparr>))
             else Inr (Some True, gw))
      else if name = ''endTag'' then
        (if \<not> ignoreNextWs gw \<and> suspendedWs gw \<noteq> None
         then (case fireSuspendedWsOnCurrentWalkers ops (elementWalkerStack gw)
                      (the (suspendedWs gw)) of
                 Inl e \<Rightarrow> Inl e
               | Inr (wsMatch, stack) \<Rightarrow>
                   Inr (Some wsMatch, gw\<lparr>elementWalkerStack := stack, ignoreNextWs := True\<rparr>))
         else Inr (Some True, gw\<lparr>ignoreNextWs := True\<rparr>))
      else Inr (Some True, gw\<lparr>ignoreNextWs := False\<rparr>))"

definition GrammarWalker_fireEvent ::
  "'a absentOps \<Rightarrow> 'a grammarWalker \<Rightarrow> string \<Rightarrow> string list
     \<Rightarrow> error + grammarError list option \<times> 'a grammarWalker" where
  "GrammarWalker_fireEvent ops gw0 name params =
     (case afterSwitch ops gw0 name params of
        Inl e \<Rightarrow> Inl e
      | Inr (None, gw) \<Rightarrow> Inr (None, gw)
      | Inr (Some wsMatch, gw1) \<Rightarrow>
          (let gw = gw1\<lparr>suspendedWs := None\<rparr>
           in if swallowAttributeValue gw
              then Inr (if name = ''attributeValue'' then None
                        else Some [GValidationError ''attribute value required''],
                        gw\<lparr>swallowAttributeValue := False\<rparr>)
              else
                (case fireOnCurrentWalkers ops (elementWalkerStack gw) name params of
                   Inl e \<Rightarrow> Inl e
                 | Inr (ret, stack) \<Rightarrow>
                     (let gw2 = gw\<lparr>elementWalkerStack := stack\<rparr>;
                          gw3 = (if name = ''endTag''
                                 then gw2\<lparr>elementWalkerStack :=
                                            (if length (elementWalkerStack gw2) > 1
                                             then butlast (elementWalkerStack gw2)
                                             else elementWalkerStack gw2),
                                          misplacedDepth :=
                                            (if misplacedDepth gw2 > 0
                                             then misplacedDepth gw2 - 1
                                             else misplacedDepth gw2)\<rparr>
                                 else gw2)
                      in if matched ret
                         then (case refs ret of
                                 Some (rf # rfs) \<Rightarrow>
                                   (case processRefs ops gw3 name (rf # rfs) params of
                                      Inl e \<Rightarrow> Inl e
                                    | Inr gw4 \<Rightarrow> Inr (None, gw4))
                               | _ \<Rightarrow> Inr (textNotAllowed wsMatch, gw3))
                         else (case errors ret of
                                 Some errs \<Rightarrow> Inr (Some (map WalkerError errs), gw3)
                               | None \<Rightarrow> diagnose ops gw3 name params wsMatch)))))"

text \<open>
  A grammar whose start pattern is a \<^verbatim>\<open>Ref\<close> to the definition of an element named \<open>a\<close>,
  and the walker that \<^verbatim>\<open>make\<close> builds for it. Its frames hold walkers of the sources only,
  so the operations of the absent walkers are never called; \<open>noAbsent\<close> gives them for
  the type \<open>unit\<close>.
\<close>

definition noAbsent :: "unit absentOps" where
  "noAbsent = \<lparr>absentFireEvent = (\<lambda>a n p. (\<lparr>matched = False, errors = None, refs = None\<rparr>, a)),
               elementNewWalker = (\<lambda>e n. ()), initWithAttributes = (\<lambda>a p. (True, a))\<rparr>"

definition refGrammar :: grammar where
  "refGrammar =
     Grammar ''/grammar''
       (Ref ''/grammar/start/ref'' ''d''
          (Some (Define ''d'' (Element (Name [] ''a'') (NotAllowed ''/n'') False))))
       [(''d'', Define ''d'' (Element (Name [] ''a'') (NotAllowed ''/n'') False))]"

definition refGrammarWalker :: "unit grammarWalker" where
  "refGrammarWalker =
     \<lparr>gwEl = refGrammar,
      elementWalkerStack =
        [[SrcWalker (RefWalker
            (Ref ''/grammar/start/ref'' ''d''
               (Some (Define ''d'' (Element (Name [] ''a'') (NotAllowed ''/n'') False))))
            (Element (Name [] ''a'') (NotAllowed ''/n'') False)
            (Name [] ''a'') (EnterStartTagEvent (Name [] ''a'')) True False)]],
      misplacedDepth = 0, swallowAttributeValue = False, suspendedWs = None,
      ignoreNextWs = False\<rparr>"

section \<open>The element tree (conversion/parser.ts)\<close>

text \<open>
  The nodes of the tree are objects that point at each other, so the model is a store: a
  node is its address, \<open>parent h c\<close> is the field \<^verbatim>\<open>_parent\<close> of the node \<open>c\<close> (\<open>None\<close> for
  \<^verbatim>\<open>undefined\<close>) and \<open>children h p\<close> the array \<^verbatim>\<open>children\<close> of the element \<open>p\<close>. Each
  method takes the store and \<^verbatim>\<open>this\<close> and returns the store after the call, or the error
  thrown.
\<close>

record store =
  parent :: "nat \<Rightarrow> nat option"
  children :: "nat \<Rightarrow> nat list"

text \<open>\<^verbatim>\<open>Array.prototype.indexOf\<close>: the first index of the value, \<open>None\<close> for \<^verbatim>\<open>-1\<close>.\<close>

fun indexOf :: "'b list \<Rightarrow> 'b \<Rightarrow> nat option" where
  "indexOf [] x = None"
| "indexOf (y # ys) x =
     (if y = x then Some 0 else (case indexOf ys x of None \<Rightarrow> None | Some i \<Rightarrow> Some (Suc i)))"

text \<open>
  \<^verbatim>\<open>Array.prototype.splice(start, deleteCount, ...items)\<close>: the removed elements and the
  array after the call. A negative \<open>start\<close> counts from the end, and both are clamped to
  the array.
\<close>

definition splice :: "'b list \<Rightarrow> int \<Rightarrow> nat \<Rightarrow> 'b list \<Rightarrow> 'b list \<times> 'b list" where
  "splice xs start deleteCount items =
     (let len = length xs;
          actualStart = (if start < 0 then nat (max (int len + start) 0)
                         else min (nat start) len);
          actualDeleteCount = min deleteCount (len - actualStart)
      in (take actualDeleteCount (drop actualStart xs),
          take actualStart xs @ items @ drop (actualStart + actualDeleteCount) xs))"

definition indexOfChild :: "store \<Rightarrow> nat \<Rightarrow> nat \<Rightarrow> error + nat" where
  "indexOfChild h this child =
     (if parent h child \<noteq> Some this then Inl (Error ''the child is not a child of this'')
      else (case indexOf (children h this) child of
              None \<Rightarrow> Inl (Error ''child not among children'')
            | Some index \<Rightarrow> Inr index))"

text \<open>
  \<^verbatim>\<open>removeChildAt(i)\<close> and \<^verbatim>\<open>removeChild(child)\<close>: the element spliced out loses its
  parent. When nothing is spliced out, setting the \<^verbatim>\<open>parent\<close> of \<^verbatim>\<open>undefined\<close> throws.
\<close>

definition removeChildAt :: "store \<Rightarrow> nat \<Rightarrow> int \<Rightarrow> error + store" where
  "removeChildAt h this i =
     (case splice (children h this) i 1 [] of
        (removed, rest) \<Rightarrow>
          (case removed of
             [] \<Rightarrow> Inl TypeError
           | r # rs \<Rightarrow> Inr (h\<lparr>children := (children h)(this := rest),
                               parent := (parent h)(r := None)\<rparr>)))"

definition removeChild :: "store \<Rightarrow> nat \<Rightarrow> nat \<Rightarrow> error + store" where
  "removeChild h this child =
     (case indexOfChild h this child of
        Inl e \<Rightarrow> Inl e
      | Inr index \<Rightarrow> removeChildAt h this (int index))"

text \<open>
  The step that \<^verbatim>\<open>appendChild\<close>, \<^verbatim>\<open>prependChild\<close>, \<^verbatim>\<open>appendChildren\<close>, \<^verbatim>\<open>insertAt\<close> and
  \<^verbatim>\<open>replaceChildAt\<close> all start with: a node that has a parent is removed from it.
\<close>

definition detach :: "store \<Rightarrow> nat \<Rightarrow> error + store" where
  "detach h node =
     (case parent h node of
        None \<Rightarrow> Inr h
      | Some p \<Rightarrow> removeChild h p node)"

text \<open>
  \<^verbatim>\<open>replaceChildAt(i, replacement)\<close>. The child is read at index \<open>i\<close> before the
  replacement is removed from its parent, and the replacement is written at the same
  index \<open>i\<close> afterwards. With \<open>i\<close> past the end the child is \<^verbatim>\<open>undefined\<close> and setting its
  \<^verbatim>\<open>parent\<close> throws; otherwise \<open>i\<close> is at most the length of the array by the time of the
  write, and a write at the length appends. \<^verbatim>\<open>replaceChildWith(child, replacement)\<close> looks
  the index of the child up first.
\<close>

definition replaceChildAt :: "store \<Rightarrow> nat \<Rightarrow> nat \<Rightarrow> nat \<Rightarrow> error + store" where
  "replaceChildAt h this i replacement =
     (if i \<ge> length (children h this)
      then (case detach h replacement of Inl e \<Rightarrow> Inl e | Inr h1 \<Rightarrow> Inl TypeError)
      else (let child = children h this ! i
            in (case detach h replacement of
                  Inl e \<Rightarrow> Inl e
                | Inr h1 \<Rightarrow>
                    (let cs = children h1 this;
                         cs' = (if i < length cs then cs[i := replacement] else cs @ [replacement])
                     in Inr (h1\<lparr>children := (children h1)(this := cs'),
                                parent := ((parent h1)(child := None))(replacement := Some this)\<rparr>)))))"

definition replaceChildWith :: "store \<Rightarrow> nat \<Rightarrow> nat \<Rightarrow> nat \<Rightarrow> error + store" where
  "replaceChildWith h this child replacement =
     (case indexOfChild h this child of
        Inl e \<Rightarrow> Inl e
      | Inr index \<Rightarrow> replaceChildAt h this index replacement)"

definition appendChild :: "store \<Rightarrow> nat \<Rightarrow> nat \<Rightarrow> error + store" where
  "appendChild h this child =
     (case detach h child of
        Inl e \<Rightarrow> Inl e
      | Inr h1 \<Rightarrow>
          Inr (h1\<lparr>parent := (parent h1)(child := Some this),
                  children := (children h1)(this := children h1 this @ [child])\<rparr>))"

definition prependChild :: "store \<Rightarrow> nat \<Rightarrow> nat \<Rightarrow> error + store" where
  "prependChild h this child =
     (case detach h child of
        Inl e \<Rightarrow> Inl e
      | Inr h1 \<Rightarrow>
          Inr (h1\<lparr>parent := (parent h1)(child := Some this),
                  children := (children h1)(this := child # children h1 this)\<rparr>))"

text \<open>
  The loop of \<^verbatim>\<open>appendChildren\<close> and \<^verbatim>\<open>insertAt\<close>: each node is removed from its parent
  and given \<^verbatim>\<open>this\<close> as parent, in the order of the array.
\<close>

fun adoptAll :: "store \<Rightarrow> nat \<Rightarrow> nat list \<Rightarrow> error + store" where
  "adoptAll h this [] = Inr h"
| "adoptAll h this (el # els) =
     (case detach h el of
        Inl e \<Rightarrow> Inl e
      | Inr h1 \<Rightarrow> adoptAll (h1\<lparr>parent := (parent h1)(el := Some this)\<rparr>) this els)"

definition appendChildren :: "store \<Rightarrow> nat \<Rightarrow> nat list \<Rightarrow> error + store" where
  "appendChildren h this els =
     (case adoptAll h this els of
        Inl e \<Rightarrow> Inl e
      | Inr h1 \<Rightarrow> Inr (h1\<lparr>children := (children h1)(this := children h1 this @ els)\<rparr>))"

definition insertAt :: "store \<Rightarrow> nat \<Rightarrow> int \<Rightarrow> nat list \<Rightarrow> error + store" where
  "insertAt h this index toInsert =
     (case adoptAll h this toInsert of
        Inl e \<Rightarrow> Inl e
      | Inr h1 \<Rightarrow>
          Inr (h1\<lparr>children :=
                    (children h1)(this := snd (splice (children h1 this) index 0 toInsert))\<rparr>))"

text \<open>\<open>setParents h ns v\<close>: the loop \<^verbatim>\<open>for (const child of ns) child.parent = v\<close>.\<close>

fun setParents :: "store \<Rightarrow> nat list \<Rightarrow> nat option \<Rightarrow> store" where
  "setParents h [] v = h"
| "setParents h (n # ns) v = setParents (h\<lparr>parent := (parent h)(n := v)\<rparr>) ns v"

definition empty :: "store \<Rightarrow> nat \<Rightarrow> store" where
  "empty h this =
     setParents (h\<lparr>children := (children h)(this := [])\<rparr>) (children h this) None"

definition grabChildren :: "store \<Rightarrow> nat \<Rightarrow> nat \<Rightarrow> store" where
  "grabChildren h this src =
     (let cs = children h src;
          h1 = h\<lparr>children := (children h)(src := [])\<rparr>;
          h2 = h1\<lparr>children := (children h1)(this := children h1 this @ cs)\<rparr>
      in setParents h2 cs (Some this))"

definition replaceContent :: "store \<Rightarrow> nat \<Rightarrow> nat list \<Rightarrow> store" where
  "replaceContent h this cs =
     (let prev = children h this;
          h1 = h\<lparr>children := (children h)(this := cs)\<rparr>
      in setParents (setParents h1 prev None) cs (Some this))"

text \<open>
  The parent/child invariant: a node is among the children of \<open>p\<close> exactly when its
  parent is \<open>p\<close>, and no array of children holds a node twice.
\<close>

definition treeInv :: "store \<Rightarrow> bool" where
  "treeInv h =
     ((\<forall>p c. (c \<in> set (children h p)) = (parent h c = Some p))
      \<and> (\<forall>p. distinct (children h p)))"

text \<open>
  The invariant in the middle of the loop of \<^verbatim>\<open>appendChildren\<close> and \<^verbatim>\<open>insertAt\<close>: the
  nodes of \<open>S\<close> have \<open>this\<close> as parent already and are in no array yet.
\<close>

definition pinv :: "nat set \<Rightarrow> nat \<Rightarrow> store \<Rightarrow> bool" where
  "pinv S this h =
     ((\<forall>p c. (c \<in> set (children h p)) = (parent h c = Some p \<and> c \<notin> S))
      \<and> (\<forall>p. distinct (children h p))
      \<and> (\<forall>c\<in>S. parent h c = Some this))"

text \<open>
  A store with one element, node 0, whose children are the nodes 1 and 2; and one with a
  second element, node 3, whose only child is node 4.
\<close>

definition twoChildren :: store where
  "twoChildren =
     \<lparr>parent = (\<lambda>n. if n = 1 \<or> n = 2 then Some 0 else None),
      children = (\<lambda>n. if n = 0 then [1, 2] else [])\<rparr>"

definition twoElements :: store where
  "twoElements =
     \<lparr>parent = (\<lambda>n. if n = 1 \<or> n = 2 then Some 0 else if n = 4 then Some 3 else None),
      children = (\<lambda>n. if n = 0 then [1, 2] else if n = 3 then [4] else [])\<rparr>"

section \<open>Name patterns: properties\<close>

lemma subtract_callback:
  "\<not> isNameChoice child \<Longrightarrow> subtract ns ex child = subtractLeaf ns ex child"
  by (cases child) (simp_all add: subtract_def)

lemma intersects_Name_left:
  "intersects p (Name ns n) = Inr r \<Longrightarrow> intersects (Name ns n) p = Inr r"
  by (cases p) auto

lemma intersects_Name:
  "intersects p (Name ns n) = Inr (match p (Some ns) (Some n))"
proof (induction p)
  case (Name ns' n')
  show ?case by auto
next
  case (NameChoice a b)
  then show ?case by (cases "match a (Some ns) (Some n)") simp_all
next
  case (NsName ns' ex)
  show ?case
  proof (cases ex)
    case None
    then show ?thesis by auto
  next
    case (Some e)
    then have "intersects e (Name ns n) = Inr (match e (Some ns) (Some n))"
      using NsName by simp
    then have "intersects (Name ns n) e = Inr (match e (Some ns) (Some n))"
      by (rule intersects_Name_left)
    with Some show ?thesis by auto
  qed
next
  case (AnyName ex)
  then show ?case by (cases ex) auto
qed

lemma simple_toArray:
  "simple p \<Longrightarrow> \<exists>xs. toArray p = Some xs \<and> xs \<noteq> [] \<and> (\<forall>x\<in>set xs. isName x)
      \<and> (\<forall>a b. match p a b = (\<exists>x\<in>set xs. match x a b))"
proof (induction p)
  case (Name ns n)
  show ?case by simp
next
  case (NameChoice p q)
  then obtain xs ys where
    "toArray p = Some xs" "xs \<noteq> []" "\<forall>x\<in>set xs. isName x"
    "\<forall>a b. match p a b = (\<exists>x\<in>set xs. match x a b)"
    "toArray q = Some ys" "ys \<noteq> []" "\<forall>x\<in>set ys. isName x"
    "\<forall>a b. match q a b = (\<exists>x\<in>set ys. match x a b)"
    by auto
  then show ?case by auto
qed simp_all

lemma foldl_NameChoice_match:
  "match (foldl NameChoice t xs) a b = (match t a b \<or> (\<exists>x\<in>set xs. match x a b))"
  by (induction xs arbitrary: t) auto

lemma makeTree_match:
  "xs \<noteq> [] \<Longrightarrow> \<exists>t. makeTree xs = Inr t \<and> (\<forall>a b. match t a b = (\<exists>x\<in>set xs. match x a b))"
proof (cases xs rule: makeTree.cases)
  case (3 x y rest)
  then show ?thesis by (auto simp: foldl_NameChoice_match)
qed auto

lemma sameName_eq: "isName x \<Longrightarrow> isName y \<Longrightarrow> sameName x y = (x = y)"
  by (cases x; cases y) auto

lemma Name_match_unique:
  "isName x \<Longrightarrow> isName y \<Longrightarrow> match x a b \<Longrightarrow> match y a b \<Longrightarrow> x = y"
  by (cases x; cases y) auto

lemma Name_match_self: "isName x \<Longrightarrow> \<exists>a b. match x a b"
  by (cases x) auto

lemma subtract_difference:
  assumes "simple e" "simple oe"
  shows "\<exists>r. subtract ns (Some e) (NsName ns (Some oe)) = Inr r
     \<and> (\<forall>x y. (case r of None \<Rightarrow> False | Some t \<Rightarrow> match t x y) = (match oe x y \<and> \<not> match e x y))
     \<and> (r = None) = (\<forall>x y. match oe x y \<longrightarrow> match e x y)"
proof -
  obtain xs where xs: "toArray e = Some xs" "\<forall>x\<in>set xs. isName x"
    "\<forall>a b. match e a b = (\<exists>x\<in>set xs. match x a b)"
    using simple_toArray [OF assms(1)] by auto
  obtain ys where ys: "toArray oe = Some ys" "\<forall>x\<in>set ys. isName x"
    "\<forall>a b. match oe a b = (\<exists>x\<in>set ys. match x a b)"
    using simple_toArray [OF assms(2)] by auto
  define res where "res = filter (\<lambda>name. \<not> list_ex (sameName name) xs) ys"
  have res_set: "set res = set ys - set xs"
    using xs(2) ys(2) by (auto simp: res_def list_ex_iff sameName_eq)
  have diff: "(\<exists>x\<in>set res. match x a b) = (match oe a b \<and> \<not> match e a b)" for a b
  proof -
    have "(\<exists>x\<in>set res. match x a b) = (\<exists>x\<in>set ys. x \<notin> set xs \<and> match x a b)"
      using res_set by auto
    also have "\<dots> = ((\<exists>x\<in>set ys. match x a b) \<and> \<not> (\<exists>x\<in>set xs. match x a b))"
      using xs(2) ys(2) by (metis Name_match_unique)
    finally show ?thesis using xs(3) ys(3) by simp
  qed
  show ?thesis
  proof (cases "res = []")
    case True
    then have "subtract ns (Some e) (NsName ns (Some oe)) = Inr None"
      using xs(1) ys(1) by (simp add: subtract_def subtractLeaf_def res_def)
    moreover have "\<forall>x y. match oe x y \<longrightarrow> match e x y"
      using diff True by auto
    ultimately show ?thesis by auto
  next
    case False
    then obtain t where t: "makeTree res = Inr t"
      "\<forall>a b. match t a b = (\<exists>x\<in>set res. match x a b)"
      using makeTree_match by blast
    have sub: "subtract ns (Some e) (NsName ns (Some oe)) = Inr (Some t)"
      using xs(1) ys(1) False t(1) by (simp add: subtract_def subtractLeaf_def res_def Let_def)
    obtain z where "z \<in> set res" using False by (cases res) auto
    then have "isName z" using res_set ys(2) by auto
    then obtain a b where "match z a b" using Name_match_self by blast
    then have "match oe a b \<and> \<not> match e a b" using diff \<open>z \<in> set res\<close> by blast
    then have "\<not> (\<forall>x y. match oe x y \<longrightarrow> match e x y)" by blast
    then show ?thesis using sub t(2) diff by auto
  qed
qed

lemma subtract_NameChoice:
  "\<not> isAnyName a \<Longrightarrow> \<not> isAnyName b \<Longrightarrow>
   subtract ns ex (NameChoice a b) =
     (case subtract ns ex a of
        Inl er \<Rightarrow> Inl er
      | Inr ra \<Rightarrow>
          (case subtract ns ex b of
             Inl er \<Rightarrow> Inl er
           | Inr rb \<Rightarrow>
               Inr (case ra of
                      None \<Rightarrow> rb
                    | Some x \<Rightarrow> (case rb of None \<Rightarrow> ra | Some y \<Rightarrow> Some (NameChoice x y)))))"
proof -
  let ?fn = "\<lambda>child. if \<not> (isName child \<or> isNsName child)
                     then Inl (Error ''child is not Name or NsName'')
                     else subtractLeaf ns ex child"
  have side: "(case c of NameChoice c1 c2 \<Rightarrow> applyRecursively ?fn c1 c2 | _ \<Rightarrow> ?fn c)
                = subtract ns ex c" if "\<not> isAnyName c" for c
    using that by (cases c) (simp_all add: subtract_def)
  assume ab: "\<not> isAnyName a" "\<not> isAnyName b"
  have "subtract ns ex (NameChoice a b) = applyRecursively ?fn a b"
    by (simp add: subtract_def)
  also have "\<dots> =
     (case (case a of NameChoice a1 a2 \<Rightarrow> applyRecursively ?fn a1 a2 | _ \<Rightarrow> ?fn a) of
        Inl e \<Rightarrow> Inl e
      | Inr newA \<Rightarrow>
          (case (case b of NameChoice b1 b2 \<Rightarrow> applyRecursively ?fn b1 b2 | _ \<Rightarrow> ?fn b) of
             Inl e \<Rightarrow> Inl e
           | Inr newB \<Rightarrow>
               Inr (case newA of
                      None \<Rightarrow> newB
                    | Some x \<Rightarrow> (case newB of None \<Rightarrow> newA | Some y \<Rightarrow> Some (NameChoice x y)))))"
    by (rule applyRecursively.simps)
  finally show ?thesis
    by (simp only: side [OF ab(1)] side [OF ab(2)])
qed

text \<open>
  C1. \<^verbatim>\<open>p.intersection(q)\<close> should match exactly the names that \<open>p\<close> and \<open>q\<close> both match.
  For \<open>p\<close> an \<^verbatim>\<open>anyName\<close> that excepts the two names \<open>{a}x\<close> and \<open>{a}y\<close> and \<open>q\<close> the
  \<^verbatim>\<open>nsName\<close> of \<open>a\<close>, both within the Relax NG restrictions, the code returns the choice
  of "\<open>a\<close> except \<open>x\<close>" and "\<open>a\<close> except \<open>y\<close>", which matches \<open>{a}x\<close>, a name that \<open>p\<close>
  does not match: \<^verbatim>\<open>NsName.subtract\<close> turns the subtraction of a choice into the union
  of the subtractions.
\<close>

theorem intersection_anyName_nsName_failing_input:
  "restricted (AnyName (Some (NameChoice (Name ''a'' ''x'') (Name ''a'' ''y''))))
   \<and> restricted (NsName ''a'' None)
   \<and> intersection (AnyName (Some (NameChoice (Name ''a'' ''x'') (Name ''a'' ''y''))))
        (Some (NsName ''a'' None))
      = Inr (Some (NameChoice (NsName ''a'' (Some (Name ''a'' ''x'')))
                              (NsName ''a'' (Some (Name ''a'' ''y'')))))
   \<and> match (NameChoice (NsName ''a'' (Some (Name ''a'' ''x'')))
                       (NsName ''a'' (Some (Name ''a'' ''y'')))) (Some ''a'') (Some ''x'')
   \<and> \<not> match (AnyName (Some (NameChoice (Name ''a'' ''x'') (Name ''a'' ''y''))))
          (Some ''a'') (Some ''x'')"
  by (simp add: subtract_def subtractLeaf_def)

text \<open>
  C2. \<^verbatim>\<open>p.intersects(q)\<close> should be true exactly when some name is matched by both. For
  \<open>p\<close> an \<^verbatim>\<open>anyName\<close> that excepts the whole namespace \<open>a\<close> and the name \<open>{a}x\<close>, and \<open>q\<close>
  the \<^verbatim>\<open>nsName\<close> of \<open>a\<close>, the code answers true although no name is matched by both. (On a
  single name, \<open>intersects\<close> does equal \<open>match\<close>: lemma \<open>intersects_Name\<close>.)
\<close>

theorem intersects_anyName_nsName_failing_input:
  "restricted (AnyName (Some (NameChoice (NsName ''a'' None) (Name ''a'' ''x''))))
   \<and> restricted (NsName ''a'' None)
   \<and> intersects (AnyName (Some (NameChoice (NsName ''a'' None) (Name ''a'' ''x''))))
        (NsName ''a'' None) = Inr True
   \<and> (\<forall>ns name.
        \<not> (match (AnyName (Some (NameChoice (NsName ''a'' None) (Name ''a'' ''x'')))) ns name
           \<and> match (NsName ''a'' None) ns name))"
  by (auto simp add: subtract_def subtractLeaf_def)

text \<open>
  C10. A wildcard match is a match, and a plain \<^verbatim>\<open>Name\<close> never matches as a wildcard.
\<close>

theorem wildcardMatch_implies_match:
  "(wildcardMatch p ns name \<longrightarrow> match p ns name) \<and> \<not> wildcardMatch (Name ns' n') ns name"
  by (induction p) auto

theorem wildcardMatch_implies_match_witness:
  "wildcardMatch (NameChoice (Name ''u'' ''a'') (NsName ''u'' None)) (Some ''u'') (Some ''b'')
   \<and> match (NameChoice (Name ''u'' ''a'') (NsName ''u'' None)) (Some ''u'') (Some ''b'')
   \<and> \<not> wildcardMatch (Name ''u'' ''a'') (Some ''u'') (Some ''a'')"
  using wildcardMatch_implies_match
    [of "NameChoice (Name ''u'' ''a'') (NsName ''u'' None)" "Some ''u''" "Some ''b''" "''u''" "''a''"]
  by simp

text \<open>
  C6. \<^verbatim>\<open>NsName.subtract\<close>, for the \<^verbatim>\<open>NsName\<close> of namespace \<open>ns\<close> with exception \<open>ex\<close>.
  Over a \<^verbatim>\<open>NameChoice\<close> it subtracts each side and keeps the sides that are not \<^verbatim>\<open>0\<close>
  (an \<^verbatim>\<open>AnyName\<close> leaf throws). For a \<^verbatim>\<open>Name\<close> of the same namespace the result is the
  \<^verbatim>\<open>NsName\<close> whose exception is \<open>ex\<close> joined with the name, and the \<^verbatim>\<open>NsName\<close> unchanged
  for another namespace. For an \<^verbatim>\<open>NsName\<close> operand of the same namespace it is \<^verbatim>\<open>0\<close> when
  the operand has no exception, the operand's exception when this one has none, and
  otherwise a pattern that matches exactly the names of the operand's exception that are
  not in this one's, \<^verbatim>\<open>0\<close> when there is no such name.
\<close>

theorem NsName_subtract_computes:
  "(\<not> isAnyName a \<and> \<not> isAnyName b \<longrightarrow>
      subtract ns ex (NameChoice a b) =
        (case subtract ns ex a of
           Inl er \<Rightarrow> Inl er
         | Inr ra \<Rightarrow>
             (case subtract ns ex b of
                Inl er \<Rightarrow> Inl er
              | Inr rb \<Rightarrow>
                  Inr (case ra of
                         None \<Rightarrow> rb
                       | Some x \<Rightarrow> (case rb of None \<Rightarrow> ra | Some y \<Rightarrow> Some (NameChoice x y))))))
   \<and> subtract ns ex (NameChoice (AnyName z) b) = Inl (Error ''child is not Name or NsName'')
   \<and> subtract ns ex (Name ons on) =
       Inr (Some (if ns = ons
                  then NsName ns (Some (case ex of None \<Rightarrow> Name ons on
                                        | Some e' \<Rightarrow> NameChoice e' (Name ons on)))
                  else NsName ns ex))
   \<and> subtract ns ex (NsName ns None) = Inr None
   \<and> subtract ns None (NsName ns (Some oe)) = Inr (Some oe)
   \<and> (simple e \<and> simple oe \<longrightarrow>
        (\<exists>r. subtract ns (Some e) (NsName ns (Some oe)) = Inr r
           \<and> (\<forall>x y. (case r of None \<Rightarrow> False | Some t \<Rightarrow> match t x y)
                      = (match oe x y \<and> \<not> match e x y))
           \<and> (r = None) = (\<forall>x y. match oe x y \<longrightarrow> match e x y)))"
proof -
  have "subtract ns ex (NameChoice (AnyName z) b) = Inl (Error ''child is not Name or NsName'')"
    by (simp add: subtract_def)
  moreover have "subtract ns ex (Name ons on) =
       Inr (Some (if ns = ons
                  then NsName ns (Some (case ex of None \<Rightarrow> Name ons on
                                        | Some e' \<Rightarrow> NameChoice e' (Name ons on)))
                  else NsName ns ex))"
    by (simp add: subtract_def subtractLeaf_def)
  moreover have "subtract ns ex (NsName ns None) = Inr None"
    by (simp add: subtract_def subtractLeaf_def)
  moreover have "subtract ns None (NsName ns (Some oe)) = Inr (Some oe)"
    by (simp add: subtract_def subtractLeaf_def)
  ultimately show ?thesis
    using subtract_NameChoice [of a b ns ex] subtract_difference [of e oe ns] by blast
qed

theorem NsName_subtract_computes_witness:
  "\<not> isAnyName (Name ''u'' ''x'') \<and> \<not> isAnyName (NsName ''u'' None)
   \<and> subtract ''u'' None (NameChoice (Name ''u'' ''x'') (NsName ''u'' None))
       = Inr (Some (NsName ''u'' (Some (Name ''u'' ''x''))))
   \<and> simple (Name ''u'' ''x'') \<and> simple (NameChoice (Name ''u'' ''x'') (Name ''u'' ''y''))
   \<and> (\<exists>r. subtract ''u'' (Some (Name ''u'' ''x''))
              (NsName ''u'' (Some (NameChoice (Name ''u'' ''x'') (Name ''u'' ''y'')))) = Inr r
          \<and> (\<forall>x y. (case r of None \<Rightarrow> False | Some t \<Rightarrow> match t x y)
                     = (match (NameChoice (Name ''u'' ''x'') (Name ''u'' ''y'')) x y
                        \<and> \<not> match (Name ''u'' ''x'') x y)))"
proof -
  have a: "\<not> isAnyName (Name ''u'' ''x'') \<and> \<not> isAnyName (NsName ''u'' None)" by simp
  have s: "simple (Name ''u'' ''x'') \<and> simple (NameChoice (Name ''u'' ''x'') (Name ''u'' ''y''))"
    by simp
  note inst = NsName_subtract_computes
    [where a = "Name ''u'' ''x''" and b = "NsName ''u'' None" and ns = "''u''" and ex = None
       and e = "Name ''u'' ''x''" and oe = "NameChoice (Name ''u'' ''x'') (Name ''u'' ''y'')"
       and ons = "''u''" and on = "''x''"]
  from inst a have
    "subtract ''u'' None (NameChoice (Name ''u'' ''x'') (NsName ''u'' None))
       = Inr (Some (NsName ''u'' (Some (Name ''u'' ''x''))))"
    by simp
  moreover from inst s have
    "\<exists>r. subtract ''u'' (Some (Name ''u'' ''x''))
              (NsName ''u'' (Some (NameChoice (Name ''u'' ''x'') (Name ''u'' ''y'')))) = Inr r
          \<and> (\<forall>x y. (case r of None \<Rightarrow> False | Some t \<Rightarrow> match t x y)
                     = (match (NameChoice (Name ''u'' ''x'') (Name ''u'' ''y'')) x y
                        \<and> \<not> match (Name ''u'' ''x'') x y))"
    by blast
  ultimately show ?thesis using a s by blast
qed

section \<open>Patterns and walkers: properties\<close>

lemma Ref_prepare_resolved:
  "definitions name = Some d \<Longrightarrow>
   Ref_prepare definitions (Ref xmlPath name r) = Inr (Ref xmlPath name (Some d))"
  by simp

lemma fireEvents_RefWalker:
  "fireEvents (RefWalker el element startName ev cea ce) evs = (m, w') \<Longrightarrow>
   w' = RefWalker el element startName ev cea (ce \<or> m) \<and> (ce \<longrightarrow> \<not> m)"
proof (induction evs arbitrary: ce m w')
  case Nil
  then show ?case by auto
next
  case (Cons a evs)
  obtain name params where a: "a = (name, params)" by (cases a)
  show ?case
  proof (cases "\<not> ce \<and> (name = ''enterStartTag'' \<or> name = ''startTagAndAttributes'')
         \<and> match startName (param params 0) (param params 1)")
    case True
    obtain m2 w2 where r: "fireEvents (RefWalker el element startName ev cea True) evs = (m2, w2)"
      by (cases "fireEvents (RefWalker el element startName ev cea True) evs")
    from Cons.IH [OF r] have "w2 = RefWalker el element startName ev cea True" "\<not> m2" by auto
    with Cons.prems a True r show ?thesis by auto
  next
    case False
    obtain m2 w2 where r: "fireEvents (RefWalker el element startName ev cea ce) evs = (m2, w2)"
      by (cases "fireEvents (RefWalker el element startName ev cea ce) evs")
    from Cons.IH [OF r] have "w2 = RefWalker el element startName ev cea (ce \<or> m2)" "ce \<longrightarrow> \<not> m2"
      by auto
    with Cons.prems a False r show ?thesis by auto
  qed
qed

text \<open>
  C4. A \<^verbatim>\<open>RefWalker\<close> that cannot end yet and is fired an \<^verbatim>\<open>enterStartTag\<close> or
  \<^verbatim>\<open>startTagAndAttributes\<close> event whose name its \<^verbatim>\<open>startName\<close> matches answers
  \<^verbatim>\<open>matched = true\<close> with \<^verbatim>\<open>refs\<close> holding the walker itself, and sets \<^verbatim>\<open>canEnd\<close>; in
  every other case it answers \<^verbatim>\<open>matched = false\<close> and does not change. \<^verbatim>\<open>end()\<close> returns
  the error "tag required" when \<^verbatim>\<open>canEnd\<close> is false and \<^verbatim>\<open>false\<close> otherwise. The walker
  that \<^verbatim>\<open>Ref.newWalker\<close> makes for an element that is not \<^verbatim>\<open>notAllowed\<close> has the
  element's name class as its \<^verbatim>\<open>startName\<close> and cannot end. After any sequence of events
  fired on a walker that could not end, \<^verbatim>\<open>canEnd\<close> says whether one of them matched,
  \<^verbatim>\<open>end()\<close> reports "tag required" exactly when none did, and once one matched no further
  event matches.
\<close>

theorem RefWalker_fireEvent_end:
  "(\<not> ce \<and> (name = ''enterStartTag'' \<or> name = ''startTagAndAttributes'')
      \<and> match startName (Some ns) (Some local) \<longrightarrow>
      fireEvent (RefWalker el element startName ev cea ce) name (ns # local # rest)
        = (\<lparr>matched = True, errors = None,
             refs = Some [RefWalker el element startName ev cea True]\<rparr>,
           RefWalker el element startName ev cea True))
   \<and> (\<not> (\<not> ce \<and> (name = ''enterStartTag'' \<or> name = ''startTagAndAttributes'')
           \<and> match startName (param params 0) (param params 1)) \<longrightarrow>
      fireEvent (RefWalker el element startName ev cea ce) name params
        = (\<lparr>matched = False, errors = None, refs = None\<rparr>,
           RefWalker el element startName ev cea ce))
   \<and> walkerEnd (RefWalker el element startName ev cea ce)
        = (if ce then None else Some [ElementNameError ''tag required'' startName])
   \<and> newWalker (Ref xmlPath rname (Some (Define dname (Element ename epat False))))
        = Inr (RefWalker (Ref xmlPath rname (Some (Define dname (Element ename epat False))))
                 (Element ename epat False) ename (EnterStartTagEvent ename) True False)
   \<and> (fireEvents (RefWalker el element startName ev cea False) evs = (m, w') \<longrightarrow>
        canEnd w' = m
        \<and> walkerEnd w' = (if m then None else Some [ElementNameError ''tag required'' startName])
        \<and> (\<forall>name' params'. m \<longrightarrow> \<not> matched (fst (fireEvent w' name' params'))))"
proof -
  have "fireEvents (RefWalker el element startName ev cea False) evs = (m, w') \<longrightarrow>
        canEnd w' = m
        \<and> walkerEnd w' = (if m then None else Some [ElementNameError ''tag required'' startName])
        \<and> (\<forall>name' params'. m \<longrightarrow> \<not> matched (fst (fireEvent w' name' params')))"
    using fireEvents_RefWalker [of el element startName ev cea False evs m w'] by auto
  then show ?thesis by (simp add: param_def)
qed

theorem RefWalker_fireEvent_end_witness:
  "match (Name ''u'' ''a'') (Some ''u'') (Some ''a'')
   \<and> fireEvent (RefWalker (Ref ''p'' ''r'' None) (Element (Name ''u'' ''a'') (NotAllowed ''q'') False)
                  (Name ''u'' ''a'') (EnterStartTagEvent (Name ''u'' ''a'')) True False)
        ''enterStartTag'' [''u'', ''a'']
      = (\<lparr>matched = True, errors = None,
           refs = Some [RefWalker (Ref ''p'' ''r'' None)
                          (Element (Name ''u'' ''a'') (NotAllowed ''q'') False)
                          (Name ''u'' ''a'') (EnterStartTagEvent (Name ''u'' ''a'')) True True]\<rparr>,
         RefWalker (Ref ''p'' ''r'' None) (Element (Name ''u'' ''a'') (NotAllowed ''q'') False)
           (Name ''u'' ''a'') (EnterStartTagEvent (Name ''u'' ''a'')) True True)
   \<and> fireEvent (RefWalker (Ref ''p'' ''r'' None) (Element (Name ''u'' ''a'') (NotAllowed ''q'') False)
                  (Name ''u'' ''a'') (EnterStartTagEvent (Name ''u'' ''a'')) True False)
        ''enterStartTag'' [''u'', ''b'']
      = (\<lparr>matched = False, errors = None, refs = None\<rparr>,
         RefWalker (Ref ''p'' ''r'' None) (Element (Name ''u'' ''a'') (NotAllowed ''q'') False)
           (Name ''u'' ''a'') (EnterStartTagEvent (Name ''u'' ''a'')) True False)
   \<and> fireEvents (RefWalker (Ref ''p'' ''r'' None) (Element (Name ''u'' ''a'') (NotAllowed ''q'') False)
                  (Name ''u'' ''a'') (EnterStartTagEvent (Name ''u'' ''a'')) True False)
        [(''enterStartTag'', [''u'', ''a''])]
      = (True, RefWalker (Ref ''p'' ''r'' None) (Element (Name ''u'' ''a'') (NotAllowed ''q'') False)
                 (Name ''u'' ''a'') (EnterStartTagEvent (Name ''u'' ''a'')) True True)
   \<and> walkerEnd (RefWalker (Ref ''p'' ''r'' None) (Element (Name ''u'' ''a'') (NotAllowed ''q'') False)
                  (Name ''u'' ''a'') (EnterStartTagEvent (Name ''u'' ''a'')) True True) = None"
  using RefWalker_fireEvent_end
    [where ce = False and name = "''enterStartTag''" and startName = "Name ''u'' ''a''"
       and ns = "''u''" and local = "''a''" and rest = "[]" and params = "[''u'', ''b'']"
       and el = "Ref ''p'' ''r'' None"
       and element = "Element (Name ''u'' ''a'') (NotAllowed ''q'') False"
       and ev = "EnterStartTagEvent (Name ''u'' ''a'')" and cea = True
       and evs = "[(''enterStartTag'', [''u'', ''a''])]" and m = True
       and w' = "RefWalker (Ref ''p'' ''r'' None) (Element (Name ''u'' ''a'') (NotAllowed ''q'') False)
                   (Name ''u'' ''a'') (EnterStartTagEvent (Name ''u'' ''a'')) True True"]
  by (simp add: param_def)



text \<open>
  C9. \<^verbatim>\<open>_prepare\<close> on a \<^verbatim>\<open>Ref\<close> named \<open>foo\<close> with no definition of that name throws an
  error whose message is the text \<^verbatim>\<open>${this.name} cannot be resolved\<close> as written in the
  source, not \<open>foo cannot be resolved\<close>. (With a definition of the name, the \<^verbatim>\<open>Ref\<close>
  resolves to it: lemma \<open>Ref_prepare_resolved\<close>.)
\<close>

theorem Ref_prepare_unresolved_failing_input:
  "Ref_prepare Map.empty (Ref ''/grammar/start/ref'' ''foo'' None)
     = Inl (Error ''${this.name} cannot be resolved'')
   \<and> Ref_prepare Map.empty (Ref ''/grammar/start/ref'' ''foo'' None)
     \<noteq> Inl (Error ''foo cannot be resolved'')"
  by simp

section \<open>The grammar walker: properties\<close>

lemma GrammarWalker_make_refGrammar: "GrammarWalker_make refGrammar = Inr refGrammarWalker"
  by (simp add: refGrammar_def refGrammarWalker_def)

lemma afterSwitch_other:
  "name \<noteq> ''text'' \<Longrightarrow> name \<noteq> ''endTag'' \<Longrightarrow>
   afterSwitch ops gw name params = Inr (Some True, gw\<lparr>ignoreNextWs := False\<rparr>)"
  by (simp add: afterSwitch_def)

lemma fireSuspendedWs_returns:
  assumes "stack \<noteq> []"
  shows "\<exists>b st. fireSuspendedWsOnCurrentWalkers ops stack ws = Inr (b, st)"
proof (cases "last stack")
  case Nil
  with assms show ?thesis by (auto simp add: fireSuspendedWsOnCurrentWalkers_def Let_def)
next
  case (Cons w rest)
  show ?thesis
  proof (cases rest)
    case Nil
    obtain r w' where "iwalkerFireEvent ops w ''text'' [ws] = (r, w')"
      by (cases "iwalkerFireEvent ops w ''text'' [ws]")
    with assms Cons Nil show ?thesis by (simp add: fireSuspendedWsOnCurrentWalkers_def)
  next
    case (Cons w2 rest2)
    with assms \<open>last stack = w # rest\<close> show ?thesis
      by (auto simp add: fireSuspendedWsOnCurrentWalkers_def Let_def)
  qed
qed

lemma afterSwitch_continues:
  assumes "elementWalkerStack gw \<noteq> []"
    and "\<not> (name = ''text'' \<and> (\<exists>text. param params 0 = Some text \<and> \<not> hasNonSpace text))"
  shows "\<exists>wsMatch gw1. afterSwitch ops gw name params = Inr (Some wsMatch, gw1)
           \<and> swallowAttributeValue gw1 = swallowAttributeValue gw"
proof (cases "name = ''text''")
  case True
  with assms(2) show ?thesis
    by (cases "param params 0") (auto simp: afterSwitch_def)
next
  case False
  show ?thesis
  proof (cases "name = ''endTag''")
    case endTag: True
    show ?thesis
    proof (cases "\<not> ignoreNextWs gw \<and> suspendedWs gw \<noteq> None")
      case True
      obtain b st where "fireSuspendedWsOnCurrentWalkers ops (elementWalkerStack gw)
                      (the (suspendedWs gw)) = Inr (b, st)"
        using fireSuspendedWs_returns [OF assms(1)] by blast
      with True endTag False show ?thesis by (auto simp: afterSwitch_def)
    next
      case False
      with endTag show ?thesis by (auto simp: afterSwitch_def)
    qed
  next
    case False
    with \<open>name \<noteq> ''text''\<close> show ?thesis by (auto simp: afterSwitch_other)
  qed
qed

lemma fire_attributeName_refGrammarWalker:
  "GrammarWalker_fireEvent noAbsent refGrammarWalker ''attributeName'' [[], ''x'']
     = Inr (Some [GAttributeNameError ''attribute not allowed here''
                   (ParamName (Some []) (Some ''x''))],
            refGrammarWalker\<lparr>swallowAttributeValue := True\<rparr>)"
  by (simp add: GrammarWalker_fireEvent_def afterSwitch_def fireOnCurrentWalkers_def
      refGrammarWalker_def setLast_def diagnose_def param_def)

text \<open>
  C8. When \<^verbatim>\<open>fireEvent\<close> is called with an \<^verbatim>\<open>attributeName\<close> event that no walker of the
  top frame matches and for which the walkers report no errors, it returns the error
  "attribute not allowed here" and sets the swallowing flag. While the flag is set, a text
  event that holds white space only is buffered as always: \<^verbatim>\<open>fireEvent\<close> returns \<^verbatim>\<open>false\<close>
  and the flag stays set. Every other event, fired on a walker whose stack is not empty,
  clears the flag and is not processed: \<^verbatim>\<open>fireEvent\<close> returns \<^verbatim>\<open>false\<close> for an
  \<^verbatim>\<open>attributeValue\<close> event and the error "attribute value required" for any other.
\<close>

theorem GrammarWalker_swallow:
  "(\<not> swallowAttributeValue gw
      \<and> fireOnCurrentWalkers ops (elementWalkerStack gw) ''attributeName'' params = Inr (ret, stack)
      \<and> \<not> matched ret \<and> errors ret = None \<longrightarrow>
      GrammarWalker_fireEvent ops gw ''attributeName'' params
        = Inr (Some [GAttributeNameError ''attribute not allowed here''
                       (ParamName (param params 0) (param params 1))],
               gw\<lparr>ignoreNextWs := False, suspendedWs := None, elementWalkerStack := stack,
                  swallowAttributeValue := True\<rparr>))
   \<and> (swallowAttributeValue gw \<and> param params 0 = Some str \<and> \<not> hasNonSpace str \<and> str \<noteq> [] \<longrightarrow>
      GrammarWalker_fireEvent ops gw ''text'' params = Inr (None, gw\<lparr>suspendedWs := Some str\<rparr>))
   \<and> (swallowAttributeValue gw \<and> elementWalkerStack gw \<noteq> []
      \<and> \<not> (name = ''text'' \<and> (\<exists>text. param params 0 = Some text \<and> \<not> hasNonSpace text)) \<longrightarrow>
      (\<exists>gw'. GrammarWalker_fireEvent ops gw name params
               = Inr (if name = ''attributeValue'' then None
                      else Some [GValidationError ''attribute value required''], gw')
            \<and> \<not> swallowAttributeValue gw'))"
proof (intro conjI impI)
  assume a: "\<not> swallowAttributeValue gw
      \<and> fireOnCurrentWalkers ops (elementWalkerStack gw) ''attributeName'' params = Inr (ret, stack)
      \<and> \<not> matched ret \<and> errors ret = None"
  have sw: "afterSwitch ops gw ''attributeName'' params = Inr (Some True, gw\<lparr>ignoreNextWs := False\<rparr>)"
    by (simp add: afterSwitch_other)
  show "GrammarWalker_fireEvent ops gw ''attributeName'' params
        = Inr (Some [GAttributeNameError ''attribute not allowed here''
                       (ParamName (param params 0) (param params 1))],
               gw\<lparr>ignoreNextWs := False, suspendedWs := None, elementWalkerStack := stack,
                  swallowAttributeValue := True\<rparr>)"
    using a by (simp add: GrammarWalker_fireEvent_def sw diagnose_def)
next
  assume "swallowAttributeValue gw \<and> param params 0 = Some str \<and> \<not> hasNonSpace str \<and> str \<noteq> []"
  then show "GrammarWalker_fireEvent ops gw ''text'' params = Inr (None, gw\<lparr>suspendedWs := Some str\<rparr>)"
    by (simp add: GrammarWalker_fireEvent_def afterSwitch_def)
next
  assume a: "swallowAttributeValue gw \<and> elementWalkerStack gw \<noteq> []
      \<and> \<not> (name = ''text'' \<and> (\<exists>text. param params 0 = Some text \<and> \<not> hasNonSpace text))"
  then obtain wsMatch gw1 where sw: "afterSwitch ops gw name params = Inr (Some wsMatch, gw1)"
    "swallowAttributeValue gw1 = swallowAttributeValue gw"
    using afterSwitch_continues [of gw name params ops] by blast
  with a show "\<exists>gw'. GrammarWalker_fireEvent ops gw name params
               = Inr (if name = ''attributeValue'' then None
                      else Some [GValidationError ''attribute value required''], gw')
            \<and> \<not> swallowAttributeValue gw'"
    by (simp add: GrammarWalker_fireEvent_def)
qed

theorem GrammarWalker_swallow_witness:
  "\<not> swallowAttributeValue refGrammarWalker
   \<and> GrammarWalker_fireEvent noAbsent refGrammarWalker ''attributeName'' [[], ''x'']
     = Inr (Some [GAttributeNameError ''attribute not allowed here''
                   (ParamName (Some []) (Some ''x''))],
            refGrammarWalker\<lparr>swallowAttributeValue := True\<rparr>)
   \<and> swallowAttributeValue (refGrammarWalker\<lparr>swallowAttributeValue := True\<rparr>)
   \<and> elementWalkerStack (refGrammarWalker\<lparr>swallowAttributeValue := True\<rparr>) \<noteq> []
   \<and> (\<exists>gw'. GrammarWalker_fireEvent noAbsent (refGrammarWalker\<lparr>swallowAttributeValue := True\<rparr>)
               ''attributeValue'' [''v''] = Inr (None, gw')
            \<and> \<not> swallowAttributeValue gw')
   \<and> GrammarWalker_fireEvent noAbsent (refGrammarWalker\<lparr>swallowAttributeValue := True\<rparr>)
       ''text'' ['' '']
     = Inr (None, refGrammarWalker\<lparr>swallowAttributeValue := True, suspendedWs := Some '' ''\<rparr>)"
proof -
  have fired: "fireOnCurrentWalkers noAbsent (elementWalkerStack refGrammarWalker)
      ''attributeName'' [[], ''x'']
    = Inr (\<lparr>matched = False, errors = None, refs = None\<rparr>, elementWalkerStack refGrammarWalker)"
    by (simp add: fireOnCurrentWalkers_def refGrammarWalker_def setLast_def)
  have flag: "\<not> swallowAttributeValue refGrammarWalker"
    by (simp add: refGrammarWalker_def)
  have stack: "elementWalkerStack (refGrammarWalker\<lparr>swallowAttributeValue := True\<rparr>) \<noteq> []"
    by (simp add: refGrammarWalker_def)
  have ws: "param ['' ''] 0 = Some '' '' \<and> \<not> hasNonSpace '' ''"
    by (simp add: param_def hasNonSpace_def isSpaceChar_def)
  from flag fired
    GrammarWalker_swallow
      [where gw = refGrammarWalker and ops = noAbsent and params = "[[], ''x'']"
         and ret = "\<lparr>matched = False, errors = None, refs = None\<rparr>"
         and stack = "elementWalkerStack refGrammarWalker"]
  have one: "GrammarWalker_fireEvent noAbsent refGrammarWalker ''attributeName'' [[], ''x'']
     = Inr (Some [GAttributeNameError ''attribute not allowed here''
                   (ParamName (Some []) (Some ''x''))],
            refGrammarWalker\<lparr>swallowAttributeValue := True\<rparr>)"
    by (simp add: param_def refGrammarWalker_def)
  from stack
    GrammarWalker_swallow
      [where gw = "refGrammarWalker\<lparr>swallowAttributeValue := True\<rparr>" and ops = noAbsent
         and name = "''attributeValue''" and params = "[''v'']"]
  have two: "\<exists>gw'. GrammarWalker_fireEvent noAbsent
               (refGrammarWalker\<lparr>swallowAttributeValue := True\<rparr>)
               ''attributeValue'' [''v''] = Inr (None, gw')
            \<and> \<not> swallowAttributeValue gw'"
    by simp
  from ws
    GrammarWalker_swallow
      [where gw = "refGrammarWalker\<lparr>swallowAttributeValue := True\<rparr>" and ops = noAbsent
         and params = "['' '']" and str = "'' ''"]
  have three: "GrammarWalker_fireEvent noAbsent (refGrammarWalker\<lparr>swallowAttributeValue := True\<rparr>)
       ''text'' ['' '']
     = Inr (None, refGrammarWalker\<lparr>swallowAttributeValue := True, suspendedWs := Some '' ''\<rparr>)"
    by simp
  from flag stack one two three show ?thesis by simp
qed

text \<open>
  C8, as the specification states it, fails when the event after the rejected
  \<^verbatim>\<open>attributeName\<close> is a text event of white space: \<^verbatim>\<open>fireEvent\<close> returns \<^verbatim>\<open>false\<close> for
  it, not the error "attribute value required", and the flag is still set for the event
  after it.
\<close>

theorem GrammarWalker_swallow_counterexample:
  "GrammarWalker_make refGrammar = Inr refGrammarWalker
   \<and> GrammarWalker_fireEvent noAbsent refGrammarWalker ''attributeName'' [[], ''x'']
     = Inr (Some [GAttributeNameError ''attribute not allowed here''
                   (ParamName (Some []) (Some ''x''))],
            refGrammarWalker\<lparr>swallowAttributeValue := True\<rparr>)
   \<and> GrammarWalker_fireEvent noAbsent (refGrammarWalker\<lparr>swallowAttributeValue := True\<rparr>)
       ''text'' ['' '']
     = Inr (None, refGrammarWalker\<lparr>swallowAttributeValue := True, suspendedWs := Some '' ''\<rparr>)
   \<and> GrammarWalker_fireEvent noAbsent
       (refGrammarWalker\<lparr>swallowAttributeValue := True, suspendedWs := Some '' ''\<rparr>)
       ''leaveStartTag'' []
     = Inr (Some [GValidationError ''attribute value required''],
            refGrammarWalker\<lparr>swallowAttributeValue := False, suspendedWs := None\<rparr>)"
  by (simp add: GrammarWalker_make_refGrammar fire_attributeName_refGrammarWalker)
     (simp add: GrammarWalker_fireEvent_def afterSwitch_def param_def hasNonSpace_def
        isSpaceChar_def refGrammarWalker_def)

section \<open>The element tree: properties\<close>

lemma indexOf_Some:
  "indexOf xs x = Some i \<Longrightarrow> i < length xs \<and> xs ! i = x"
proof (induction xs arbitrary: i)
  case Nil
  then show ?case by simp
next
  case (Cons y ys)
  then show ?case by (auto split: if_splits option.splits)
qed

lemma indexOf_None: "(indexOf xs x = None) = (x \<notin> set xs)"
  by (induction xs) (auto split: option.splits)

lemma take1_drop: "i < length xs \<Longrightarrow> take (Suc 0) (drop i xs) = [xs ! i]"
  by (simp add: take_Suc_conv_app_nth)

lemma splice_one:
  "i < length xs \<Longrightarrow> splice xs (int i) (Suc 0) [] = ([xs ! i], take i xs @ drop (Suc i) xs)"
  by (simp add: splice_def Let_def take1_drop)

lemma splice_removed:
  assumes "splice xs i 1 [] = (r # rs, rest)"
  shows "\<exists>k < length xs. r = xs ! k \<and> rest = take k xs @ drop (Suc k) xs"
proof -
  define k where "k = (if i < 0 then nat (max (int (length xs) + i) 0) else min (nat i) (length xs))"
  have removed: "take (min 1 (length xs - k)) (drop k xs) = r # rs"
    and rest: "rest = take k xs @ drop (k + min 1 (length xs - k)) xs"
    using assms unfolding splice_def Let_def k_def by simp_all
  have "k < length xs"
  proof (rule ccontr)
    assume "\<not> k < length xs"
    then have "drop k xs = []" by simp
    with removed show False by simp
  qed
  then have one: "min 1 (length xs - k) = Suc 0" by simp
  from removed have "r = xs ! k"
    unfolding one using take1_drop [OF \<open>k < length xs\<close>] by simp
  moreover from rest have "rest = take k xs @ drop (Suc k) xs"
    unfolding one by simp
  ultimately show ?thesis using \<open>k < length xs\<close> by blast
qed

lemma treeInv_pinv: "treeInv h = pinv {} this h"
  by (auto simp: treeInv_def pinv_def)

lemma distinct_remove_nth:
  "distinct xs \<Longrightarrow> k < length xs \<Longrightarrow> take k xs @ drop (Suc k) xs = removeAll (xs ! k) xs"
proof (induction xs arbitrary: k)
  case Nil
  then show ?case by simp
next
  case (Cons x xs)
  show ?case
  proof (cases k)
    case 0
    with Cons.prems show ?thesis by (simp add: removeAll_id)
  next
    case (Suc j)
    with Cons.prems have "x \<noteq> xs ! j" by auto
    with Cons Suc show ?thesis by simp
  qed
qed

lemma removeChildAt_spec:
  assumes "removeChildAt h this i = Inr h'" "distinct (children h this)"
  shows "\<exists>r \<in> set (children h this).
           parent h' = (parent h)(r := None)
           \<and> children h' = (children h)(this := removeAll r (children h this))"
proof -
  obtain removed rest where sp: "splice (children h this) i 1 [] = (removed, rest)"
    by (cases "splice (children h this) i 1 []")
  show ?thesis
  proof (cases removed)
    case Nil
    with assms(1) sp show ?thesis by (simp add: removeChildAt_def)
  next
    case (Cons r rs)
    with assms(1) sp have h':
      "h' = h\<lparr>children := (children h)(this := rest), parent := (parent h)(r := None)\<rparr>"
      by (simp add: removeChildAt_def)
    from sp Cons have "splice (children h this) i 1 [] = (r # rs, rest)" by simp
    from splice_removed [OF this]
    obtain k where k: "k < length (children h this)" "r = children h this ! k"
      "rest = take k (children h this) @ drop (Suc k) (children h this)"
      by auto
    with assms(2) have rest: "rest = removeAll r (children h this)"
      by (simp add: distinct_remove_nth)
    have "r \<in> set (children h this)" using k(1,2) by simp
    moreover have "parent h' = (parent h)(r := None)" by (simp add: h')
    moreover have "children h' = (children h)(this := removeAll r (children h this))"
      by (simp add: h' rest)
    ultimately show ?thesis by blast
  qed
qed

lemma detach_spec:
  assumes "pinv S this h" "node \<notin> S"
  shows "\<exists>h'. detach h node = Inr h' \<and> parent h' = (parent h)(node := None)
           \<and> children h' = (\<lambda>p. removeAll node (children h p))"
proof (cases "parent h node")
  case None
  have "node \<notin> set (children h p)" for p
    using assms(1) None by (auto simp: pinv_def)
  then have "(\<lambda>p. removeAll node (children h p)) = children h"
    by (simp add: removeAll_id)
  moreover have "(parent h)(node := None) = parent h" using None by (simp add: fun_upd_idem)
  moreover have "detach h node = Inr h" using None by (simp add: detach_def)
  ultimately show ?thesis by simp
next
  case (Some p)
  from assms Some have mem: "node \<in> set (children h p)" by (simp add: pinv_def)
  from assms(1) have dist: "distinct (children h p)" by (simp add: pinv_def)
  from mem have "indexOf (children h p) node \<noteq> None" by (simp add: indexOf_None)
  then obtain k where k: "indexOf (children h p) node = Some k" by (cases "indexOf (children h p) node") simp_all
  from indexOf_Some [OF k] have kk: "k < length (children h p)" "children h p ! k = node"
    by simp_all
  have other: "removeAll node (children h q) = children h q" if "q \<noteq> p" for q
  proof -
    have "node \<notin> set (children h q)"
    proof
      assume "node \<in> set (children h q)"
      with assms(1) have "parent h node = Some q" by (simp add: pinv_def)
      with Some that show False by simp
    qed
    then show ?thesis by (simp add: removeAll_id)
  qed
  define h1 where "h1 = h\<lparr>children := (children h)(p := take k (children h p) @ drop (Suc k) (children h p)),
                               parent := (parent h)(node := None)\<rparr>"
  have idx: "indexOfChild h p node = Inr k"
    using Some k by (simp add: indexOfChild_def)
  have "removeChildAt h p (int k) = Inr h1"
    using kk by (simp add: removeChildAt_def splice_one [OF kk(1)] h1_def)
  with idx Some have d: "detach h node = Inr h1"
    by (simp add: detach_def removeChild_def)
  have c: "children h1 = (\<lambda>q. removeAll node (children h q))"
  proof
    fix q show "children h1 q = removeAll node (children h q)"
    proof (cases "q = p")
      case True
      with distinct_remove_nth [OF dist kk(1)] kk(2) show ?thesis by (simp add: h1_def)
    next
      case False
      with other show ?thesis by (simp add: h1_def)
    qed
  qed
  have "parent h1 = (parent h)(node := None)" by (simp add: h1_def)
  with d c show ?thesis by simp
qed

lemma setParents_spec:
  "parent (setParents h ns v) = (\<lambda>n. if n \<in> set ns then v else parent h n)
   \<and> children (setParents h ns v) = children h"
  by (induction h ns v rule: setParents.induct) (auto simp: fun_eq_iff)

lemma filter_removeAll_notin:
  "filter (\<lambda>c. c \<notin> set els) (removeAll el xs) = filter (\<lambda>c. c \<notin> set (el # els)) xs"
  by (induction xs) auto

lemma pinv_adopt:
  assumes "pinv S this h"
  shows "pinv (insert el S) this
           (h\<lparr>children := (\<lambda>p. removeAll el (children h p)),
              parent := (parent h)(el := Some this)\<rparr>)"
  using assms by (auto simp: pinv_def distinct_removeAll)

lemma adoptAll_spec:
  assumes "pinv S this h" "distinct els" "set els \<inter> S = {}"
  shows "\<exists>h'. adoptAll h this els = Inr h'
           \<and> parent h' = (\<lambda>n. if n \<in> set els then Some this else parent h n)
           \<and> children h' = (\<lambda>p. filter (\<lambda>c. c \<notin> set els) (children h p))"
  using assms
proof (induction els arbitrary: h S)
  case Nil
  then show ?case by simp
next
  case (Cons el els)
  from Cons.prems(3) have "el \<notin> S" by simp
  from detach_spec [OF Cons.prems(1) this] obtain h1 where h1:
    "detach h el = Inr h1" "parent h1 = (parent h)(el := None)"
    "children h1 = (\<lambda>p. removeAll el (children h p))"
    by auto
  define h2 where "h2 = h1\<lparr>parent := (parent h1)(el := Some this)\<rparr>"
  have h2: "parent h2 = (parent h)(el := Some this)"
    "children h2 = (\<lambda>p. removeAll el (children h p))"
    by (simp_all add: h2_def h1)
  have "h2 = h\<lparr>children := (\<lambda>p. removeAll el (children h p)),
              parent := (parent h)(el := Some this)\<rparr>\<lparr>more := more h1\<rparr>"
    by (simp add: h2_def h1)
  have p2: "pinv (insert el S) this h2"
    using pinv_adopt [OF Cons.prems(1), of el] h2 by (simp add: pinv_def)
  have disj: "set els \<inter> insert el S = {}" using Cons.prems(2,3) by auto
  have dist: "distinct els" using Cons.prems(2) by simp
  from Cons.IH [OF p2 dist disj] obtain h' where h':
    "adoptAll h2 this els = Inr h'"
    "parent h' = (\<lambda>n. if n \<in> set els then Some this else parent h2 n)"
    "children h' = (\<lambda>p. filter (\<lambda>c. c \<notin> set els) (children h2 p))"
    by auto
  have 1: "adoptAll h this (el # els) = Inr h'"
    using h1(1) h'(1) by (simp add: h2_def)
  have 2: "parent h' = (\<lambda>n. if n \<in> set (el # els) then Some this else parent h n)"
    by (rule ext) (simp add: h'(2) h2(1))
  have 3: "children h' = (\<lambda>p. filter (\<lambda>c. c \<notin> set (el # els)) (children h p))"
    by (rule ext) (simp only: h'(3) h2(2) filter_removeAll_notin)
  from 1 2 3 show ?case by blast
qed

lemma treeInv_removeChildAt:
  assumes "treeInv h" "removeChildAt h this i = Inr h'"
  shows "treeInv h'"
proof -
  have "distinct (children h this)" using assms(1) by (simp add: treeInv_def)
  from removeChildAt_spec [OF assms(2) this] obtain r where
    "r \<in> set (children h this)" "parent h' = (parent h)(r := None)"
    "children h' = (children h)(this := removeAll r (children h this))"
    by blast
  with assms(1) show ?thesis
    by (auto simp: treeInv_def distinct_removeAll split: if_splits)
qed

lemma treeInv_removeChild:
  "treeInv h \<Longrightarrow> removeChild h this child = Inr h' \<Longrightarrow> treeInv h'"
  by (auto simp: removeChild_def split: sum.splits intro: treeInv_removeChildAt)

lemma treeInv_appendChild:
  assumes "treeInv h" "appendChild h this child = Inr h'"
  shows "treeInv h'"
proof -
  from assms(1) have "pinv {} this h" by (simp add: treeInv_pinv [symmetric])
  from detach_spec [OF this, of child] obtain h1 where
    "detach h child = Inr h1" "parent h1 = (parent h)(child := None)"
    "children h1 = (\<lambda>p. removeAll child (children h p))"
    by auto
  with assms show ?thesis
    by (auto simp: appendChild_def treeInv_def distinct_removeAll split: if_splits)
qed

lemma treeInv_prependChild:
  assumes "treeInv h" "prependChild h this child = Inr h'"
  shows "treeInv h'"
proof -
  from assms(1) have "pinv {} this h" by (simp add: treeInv_pinv [symmetric])
  from detach_spec [OF this, of child] obtain h1 where
    "detach h child = Inr h1" "parent h1 = (parent h)(child := None)"
    "children h1 = (\<lambda>p. removeAll child (children h p))"
    by auto
  with assms show ?thesis
    by (auto simp: prependChild_def treeInv_def distinct_removeAll split: if_splits)
qed

lemma treeInv_appendChildren:
  assumes "treeInv h" "distinct els" "appendChildren h this els = Inr h'"
  shows "treeInv h'"
proof -
  from assms(1) have "pinv {} this h" by (simp add: treeInv_pinv [symmetric])
  from adoptAll_spec [OF this assms(2)] obtain h1 where
    "adoptAll h this els = Inr h1"
    "parent h1 = (\<lambda>n. if n \<in> set els then Some this else parent h n)"
    "children h1 = (\<lambda>p. filter (\<lambda>c. c \<notin> set els) (children h p))"
    by auto
  with assms show ?thesis
    by (auto simp: appendChildren_def treeInv_def split: if_splits)
qed

lemma splice_insert:
  "\<exists>k \<le> length xs. snd (splice xs i 0 items) = take k xs @ items @ drop k xs"
proof (cases "i < 0")
  case True
  then show ?thesis
    by (intro exI [of _ "nat (max (int (length xs) + i) 0)"]) (simp add: splice_def Let_def)
next
  case False
  then show ?thesis
    by (intro exI [of _ "min (nat i) (length xs)"]) (simp add: splice_def Let_def)
qed

lemma treeInv_insertAt:
  assumes "treeInv h" "distinct els" "insertAt h this index els = Inr h'"
  shows "treeInv h'"
proof -
  from assms(1) have "pinv {} this h" by (simp add: treeInv_pinv [symmetric])
  from adoptAll_spec [OF this assms(2)] obtain h1 where h1:
    "adoptAll h this els = Inr h1"
    "parent h1 = (\<lambda>n. if n \<in> set els then Some this else parent h n)"
    "children h1 = (\<lambda>p. filter (\<lambda>c. c \<notin> set els) (children h p))"
    by auto
  obtain k where k: "snd (splice (children h1 this) index 0 els)
      = take k (children h1 this) @ els @ drop k (children h1 this)"
    using splice_insert by blast
  have set_eq: "set (take k xs @ els @ drop k xs) = set xs \<union> set els" for xs :: "nat list"
    by (metis append_take_drop_id set_append sup_assoc sup_commute)
  have dist: "distinct (take k xs @ els @ drop k xs)" if "distinct xs" "set xs \<inter> set els = {}"
    for xs :: "nat list"
  proof -
    have "distinct (take k xs @ drop k xs)" using that(1) by simp
    then have "distinct (take k xs)" "distinct (drop k xs)"
      "set (take k xs) \<inter> set (drop k xs) = {}"
      unfolding distinct_append by simp_all
    moreover have "set (take k xs) \<subseteq> set xs" "set (drop k xs) \<subseteq> set xs"
      by (auto dest: in_set_takeD in_set_dropD)
    ultimately show ?thesis using assms(2) that(2) by auto
  qed
  have h': "parent h' = parent h1"
    "children h' = (children h1)(this := take k (children h1 this) @ els @ drop k (children h1 this))"
    using assms(3) h1(1) k by (auto simp: insertAt_def)
  show ?thesis
    unfolding treeInv_def
  proof (intro conjI allI)
    fix p c
    show "(c \<in> set (children h' p)) = (parent h' c = Some p)"
      using assms(1) h1(2,3) h' set_eq [of "children h1 this"]
      by (auto simp: treeInv_def split: if_splits)
  next
    fix p show "distinct (children h' p)"
      using assms(1) h1(3) h' dist [of "children h1 this"]
      by (auto simp: treeInv_def)
  qed
qed

lemma treeInv_empty: "treeInv h \<Longrightarrow> treeInv (empty h this)"
  by (auto simp: empty_def treeInv_def setParents_spec split: if_splits)

lemma treeInv_grabChildren: "treeInv h \<Longrightarrow> treeInv (grabChildren h this src)"
  by (auto simp: grabChildren_def Let_def treeInv_def setParents_spec split: if_splits)

lemma treeInv_replaceContent:
  assumes "treeInv h" "distinct cs" "\<forall>c\<in>set cs. parent h c = None \<or> parent h c = Some this"
  shows "treeInv (replaceContent h this cs)"
  using assms
  by (auto simp: replaceContent_def Let_def treeInv_def setParents_spec split: if_splits)

lemma treeInv_replaceChildAt:
  assumes "treeInv h" "parent h replacement \<noteq> Some this"
    "replaceChildAt h this i replacement = Inr h'"
  shows "treeInv h'"
proof -
  from assms(1) have "pinv {} this h" by (simp add: treeInv_pinv [symmetric])
  from detach_spec [OF this, of replacement] obtain h1 where h1:
    "detach h replacement = Inr h1" "parent h1 = (parent h)(replacement := None)"
    "children h1 = (\<lambda>p. removeAll replacement (children h p))"
    by auto
  have i: "i < length (children h this)"
    using assms(3) h1(1) by (cases "i < length (children h this)") (auto simp: replaceChildAt_def)
  have notin: "replacement \<notin> set (children h this)"
    using assms(1,2) by (auto simp: treeInv_def)
  then have same: "children h1 this = children h this" using h1(3) by (simp add: removeAll_id)
  define child where "child = children h this ! i"
  have h': "parent h' = ((parent h1)(child := None))(replacement := Some this)"
    "children h' = (children h1)(this := (children h this)[i := replacement])"
    using assms(3) h1(1) i same by (auto simp: replaceChildAt_def Let_def child_def)
  have sets: "set ((children h this)[i := replacement])
      = insert replacement (set (children h this) - {child})"
    using i assms(1) unfolding child_def treeInv_def
    by (simp add: set_update_distinct)
  have mem: "(c \<in> set ((children h this)[i := replacement]))
      = (c = replacement \<or> (parent h c = Some this \<and> c \<noteq> child))" for c
    using sets assms(1) by (auto simp: treeInv_def)
  have "child \<in> set (children h this)" using i by (simp add: child_def)
  then have pc: "parent h child = Some this" using assms(1) by (simp add: treeInv_def)
  have others: "(c \<in> set (removeAll replacement (children h p)))
      = (parent h c = Some p \<and> c \<noteq> replacement)" for c p
    using assms(1) by (auto simp: treeInv_def)
  show ?thesis
    unfolding treeInv_def
  proof (intro conjI allI)
    fix p c
    show "(c \<in> set (children h' p)) = (parent h' c = Some p)"
    proof (cases "p = this")
      case True
      then show ?thesis using h' h1(2) mem [of c] pc assms(2) by auto
    next
      case False
      then show ?thesis using h' h1(2,3) others [of c p] pc by auto
    qed
  next
    fix p show "distinct (children h' p)"
      using assms(1) h' notin by (auto simp: treeInv_def h1(3) distinct_removeAll distinct_list_update)
  qed
qed

lemma treeInv_stores: "treeInv twoChildren \<and> treeInv twoElements"
  by (auto simp: treeInv_def twoChildren_def twoElements_def split: if_splits)

lemma replaceChildWith_sibling:
  "replaceChildWith twoChildren 0 2 1
     = Inr (twoChildren\<lparr>children := (children twoChildren)(0 := [2, 1]),
                        parent := (parent twoChildren)(2 := None, 1 := Some 0)\<rparr>)"
  by (simp add: replaceChildWith_def indexOfChild_def twoChildren_def replaceChildAt_def detach_def
      removeChild_def removeChildAt_def splice_def Let_def fun_upd_twist)

lemma replaceChildWith_sibling_breaks_treeInv:
  "\<not> treeInv (twoChildren\<lparr>children := (children twoChildren)(0 := [2, 1]),
                           parent := (parent twoChildren)(2 := None, 1 := Some 0)\<rparr>)"
proof
  assume "treeInv (twoChildren\<lparr>children := (children twoChildren)(0 := [2, 1]),
                           parent := (parent twoChildren)(2 := None, 1 := Some 0)\<rparr>)"
  then have "(2 \<in> set (children (twoChildren\<lparr>children := (children twoChildren)(0 := [2, 1]),
                           parent := (parent twoChildren)(2 := None, 1 := Some 0)\<rparr>) 0))
      = (parent (twoChildren\<lparr>children := (children twoChildren)(0 := [2, 1]),
                           parent := (parent twoChildren)(2 := None, 1 := Some 0)\<rparr>) 2 = Some 0)"
    unfolding treeInv_def by blast
  then show False by simp
qed

lemma replaceContent_attached_breaks_treeInv:
  "\<not> treeInv (replaceContent twoElements 0 [4])"
proof
  assume "treeInv (replaceContent twoElements 0 [4])"
  then have "(4 \<in> set (children (replaceContent twoElements 0 [4]) 3))
      = (parent (replaceContent twoElements 0 [4]) 4 = Some 3)"
    unfolding treeInv_def by blast
  then show False by (simp add: replaceContent_def twoElements_def Let_def)
qed

text \<open>
  C7. The mutation methods should keep the parent/child invariant. They do
  (\<open>treeInv_removeChild\<close>, \<open>treeInv_removeChildAt\<close>, \<open>treeInv_appendChild\<close>,
  \<open>treeInv_prependChild\<close>, \<open>treeInv_appendChildren\<close>, \<open>treeInv_insertAt\<close>, \<open>treeInv_empty\<close>,
  \<open>treeInv_grabChildren\<close>), but for two: \<^verbatim>\<open>replaceChildWith\<close> (and \<^verbatim>\<open>replaceChildAt\<close>) when
  the replacement is a child of the same element, and \<^verbatim>\<open>replaceContent\<close> when a new child
  still has another parent. In the store where element 0 has the children 1 and 2,
  replacing child 2 with child 1 leaves the array \<open>[2, 1]\<close> with node 2 parentless: the
  index of the child is looked up before the replacement is removed from the same array.
  In the store where element 3 has the child 4, giving element 0 the content \<open>[4]\<close> leaves
  node 4 in the arrays of both elements.
\<close>

theorem replaceChildWith_sibling_failing_input:
  "(\<exists>h'. replaceChildWith twoChildren 0 2 1 = Inr h'
         \<and> children h' 0 = [2, 1] \<and> parent h' 2 = None \<and> parent h' 1 = Some 0)
   \<and> children (replaceContent twoElements 0 [4]) 0 = [4]
   \<and> children (replaceContent twoElements 0 [4]) 3 = [4]
   \<and> parent (replaceContent twoElements 0 [4]) 4 = Some 0"
  by (simp only: replaceChildWith_sibling) (simp add: replaceContent_def twoElements_def Let_def)

end
